theory Spec2Isabelle
  imports Main "HOL-Library.Multiset"
begin

section \<open>JavaScript values used by the sources\<close>

text \<open>
  The sources are TypeScript. Timestamps and durations are JavaScript numbers holding
  integers (\<open>Date.now()\<close>, \<open>expires_in\<close>); they are modelled as \<open>int\<close>. An optional
  field \<open>f?: T\<close> is a \<open>T option\<close>. The sources test optional fields by truthiness
  (\<open>if (a.lastUsed)\<close>, \<open>x || y\<close>, \<open>c ? a : b\<close>): an absent field is falsy, and so
  are the number \<open>0\<close> and the empty string.
\<close>

definition truthy_num :: "int option \<Rightarrow> bool" where
  "truthy_num x = (case x of None \<Rightarrow> False | Some n \<Rightarrow> n \<noteq> 0)"

definition truthy_str :: "string option \<Rightarrow> bool" where
  "truthy_str x = (case x of None \<Rightarrow> False | Some s \<Rightarrow> s \<noteq> [])"

text \<open>Opaque protocol payloads (tool arguments, results, schemas) are JSON values.\<close>

datatype json =
    JNull
  | JBool bool
  | JNum int
  | JStr string
  | JArr "json list"
  | JObj "(string \<times> json) list"

fun truthy_json :: "json option \<Rightarrow> bool" where
  "truthy_json None = False"
| "truthy_json (Some JNull) = False"
| "truthy_json (Some (JBool b)) = b"
| "truthy_json (Some (JNum n)) = (n \<noteq> 0)"
| "truthy_json (Some (JStr s)) = (s \<noteq> [])"
| "truthy_json (Some (JArr xs)) = True"
| "truthy_json (Some (JObj kvs)) = True"

text \<open>
  A JavaScript \<open>Map\<close> iterates in insertion order; \<open>set\<close> on a key that is already
  there replaces the value and keeps the key's place. Where the iteration order is
  read (\<open>ServerConfigManager.servers\<close>), the map is an association list.
\<close>

fun map_set :: "'k \<Rightarrow> 'v \<Rightarrow> ('k \<times> 'v) list \<Rightarrow> ('k \<times> 'v) list" where
  "map_set k v [] = [(k, v)]"
| "map_set k v ((k', v') # m) =
     (if k' = k then (k, v) # m else (k', v') # map_set k v m)"

definition new_Map :: "('k \<times> 'v) list \<Rightarrow> ('k \<times> 'v) list" where
  "new_Map entries = foldl (\<lambda>m entry. map_set (fst entry) (snd entry) m) [] entries"

definition map_values :: "('k \<times> 'v) list \<Rightarrow> 'v list" where
  "map_values m = map snd m"

text \<open>
  \<open>Array.prototype.sort(compare)\<close> is a stable sort: for a comparator that is a
  consistent ordering, the result is the one list that is sorted by it and keeps the
  input order of elements that compare equal. It is modelled as insertion sort, where
  \<open>x\<close> goes before \<open>y\<close> when \<open>compare(x, y) \<le> 0\<close>.
\<close>

fun insert_by :: "('a \<Rightarrow> 'a \<Rightarrow> int) \<Rightarrow> 'a \<Rightarrow> 'a list \<Rightarrow> 'a list" where
  "insert_by cmp x [] = [x]"
| "insert_by cmp x (y # ys) =
     (if cmp x y \<le> 0 then x # y # ys else y # insert_by cmp x ys)"

fun array_sort :: "('a \<Rightarrow> 'a \<Rightarrow> int) \<Rightarrow> 'a list \<Rightarrow> 'a list" where
  "array_sort cmp [] = []"
| "array_sort cmp (x # xs) = insert_by cmp x (array_sort cmp xs)"


section \<open>server-config.ts\<close>

datatype AuthType = OAuth2 | Bearer

text \<open>
  \<open>StreamableHTTPTransportConfig\<close> and \<open>SSETransportConfig\<close> have the same fields
  (record \<open>HTTPParams\<close>); the \<open>type\<close> tag is the constructor of \<open>TransportConfig\<close>.
  \<open>OtherTransport\<close> stands for a tag outside the declared union, which the
  \<open>default\<close> branch of \<open>connect\<close> handles.
\<close>

record HTTPParams =
  url :: string
  headers :: "(string \<times> string) list"
  requiresAuth :: "bool option"
  authType :: "AuthType option"
  manualClientId :: "string option"
  manualClientSecret :: "string option"

datatype TransportConfig =
    Stdio string "string list option" "(string \<times> string) list option"
  | StreamableHTTP HTTPParams
  | SSE HTTPParams
  | WebSocket string "(string \<times> string) list"
  | OtherTransport string

text \<open>
  Field \<open>id\<close> of \<open>ServerConfig\<close> is \<open>server_id\<close> here (\<open>id\<close> is the identity
  function of HOL); \<open>clientId\<close> and \<open>clientSecret\<close> of a transport configuration are
  \<open>manualClientId\<close> and \<open>manualClientSecret\<close>, the names \<open>connect\<close> passes them under.
\<close>

record ServerConfig =
  server_id :: string
  name :: string
  description :: "string option"
  transport :: TransportConfig
  createdAt :: int
  lastUsed :: "int option"

text \<open>
  \<open>ServerConfigManager.load\<close> reads the file and parses it inside one \<open>try\<close>. The
  outcome of \<open>fs.readFile\<close> followed by \<open>JSON.parse\<close> is one of: the read throws,
  the parse (or the traversal of something that is not an array of configurations)
  throws, or a list of configurations comes out.
\<close>

datatype config_file =
    Unreadable string
  | Malformed string
  | Parsed "ServerConfig list"

definition load :: "config_file \<Rightarrow> (string \<times> ServerConfig) list" where
  "load file =
     (case file of
        Parsed configs \<Rightarrow> new_Map (map (\<lambda>config. (server_id config, config)) configs)
      | Unreadable e \<Rightarrow> []
      | Malformed e \<Rightarrow> [])"

definition compareServers :: "ServerConfig \<Rightarrow> ServerConfig \<Rightarrow> int" where
  "compareServers a b =
     (if truthy_num (lastUsed a) \<and> truthy_num (lastUsed b)
      then (case (lastUsed a, lastUsed b) of
              (Some la, Some lb) \<Rightarrow> lb - la
            | _ \<Rightarrow> 0)
      else if truthy_num (lastUsed a) then - 1
      else if truthy_num (lastUsed b) then 1
      else createdAt b - createdAt a)"

definition getAllServers :: "(string \<times> ServerConfig) list \<Rightarrow> ServerConfig list" where
  "getAllServers servers = array_sort compareServers (map_values servers)"


section \<open>credential-storage.ts and oauth2-client.ts\<close>

text \<open>
  The fields of the JSON bodies that the client reads. A registration response and a
  token response are typed \<open>any\<close> in the source; the records hold the fields the
  source reads from them.
\<close>

record RegistrationResponse =
  client_id :: string
  client_secret :: "string option"

record StoredCredentials =
  clientId :: string
  clientSecret :: "string option"
  accessToken :: string
  refreshToken :: "string option"
  tokenType :: string
  expiresAt :: "int option"
  registrationResponse :: "RegistrationResponse option"

record OAuthMetadata =
  issuer :: string
  authorization_endpoint :: string
  token_endpoint :: string
  registration_endpoint :: "string option"

record TokenData =
  access_token :: string
  refresh_token :: "string option"
  token_type :: string
  expires_in :: "int option"

text \<open>
  What \<open>fetch\<close> resolves to: \<open>response.ok\<close>, \<open>response.statusText\<close>, the body as
  \<open>response.text()\<close> gives it, and as \<open>response.json()\<close> gives it (which rejects on
  a body that is not JSON).
\<close>

record 'a response =
  ok :: bool
  statusText :: string
  body_text :: string
  body_json :: "string + 'a"

text \<open>The query of the request that reaches \<open>/callback\<close>.\<close>

record callback_query =
  cb_code :: "string option"
  cb_state :: "string option"
  cb_error :: "string option"
  cb_error_description :: "string option"

text \<open>What a client hands to the protocol library's \<open>client.connect\<close>.\<close>

datatype client_transport =
    StdioClientTransport string "string list" "(string \<times> string) list option"
  | StreamableHTTPClientTransport string "(string \<times> string) list" "(string \<times> string) list"
  | SSEClientTransport string "(string \<times> string) list"

text \<open>
  Every call that leaves the process is an event of the trace: reads and writes of the
  credentials file, HTTP requests, the browser authorization (callback listener started
  and browser opened on the authorization URL, given as endpoint and query parameters),
  and the protocol library's \<open>connect\<close> on a transport. A POST to the token endpoint
  carries its form body, whose \<open>grant_type\<close> tells a refresh from a code exchange.
\<close>

datatype event =
    ReadCredentials
  | WriteCredentials StoredCredentials
  | FetchMetadata string
  | PostRegistration string
  | PostToken string "(string \<times> string) list"
  | OpenBrowser string "(string \<times> string) list"
  | ClientConnect client_transport

text \<open>
  The state an authentication runs in: the credential the storage holds for this client
  (\<open>None\<close>: no credentials file, or no entry for the server) and the trace so far.
\<close>

record auth_state =
  stored :: "StoredCredentials option"
  trace :: "event list"

text \<open>
  The environment answers each external call. An answer may depend on when the call is
  made: the first argument of each field is the number of events before the call, so
  the same request can succeed once and fail later. \<open>read_error\<close> is a failure of
  reading the credentials file other than its absence (which is the state's
  \<open>stored = None\<close>); \<open>fetch_metadata\<close> answers the request for the metadata of a
  server URL, \<open>Inl\<close> when the well-known URL cannot be built from it or \<open>fetch\<close>
  rejects; \<open>url_parses\<close> tells whether \<open>new URL(s)\<close> accepts \<open>s\<close>;
  \<open>random_base64url\<close> and \<open>random_hex\<close> are \<open>randomBytes(32)\<close> and
  \<open>randomBytes(16)\<close> as the client encodes them. \<open>Date.now()\<close> and the random bytes
  are read, not traced. Every awaited call is taken to settle: a callback that never
  arrives is outside the model.
\<close>

record oauth_env =
  date_now :: "nat \<Rightarrow> int"
  read_error :: "nat \<Rightarrow> string option"
  write_error :: "nat \<Rightarrow> string option"
  fetch_metadata :: "nat \<Rightarrow> string \<Rightarrow> string + OAuthMetadata response"
  post_registration :: "nat \<Rightarrow> string \<Rightarrow> string + RegistrationResponse response"
  post_token :: "nat \<Rightarrow> string \<Rightarrow> (string \<times> string) list \<Rightarrow> string + TokenData response"
  random_base64url :: "nat \<Rightarrow> string"
  random_hex :: "nat \<Rightarrow> string"
  sha256_base64url :: "string \<Rightarrow> string"
  url_parses :: "string \<Rightarrow> bool"
  callback :: "nat \<Rightarrow> callback_query"

text \<open>
  An \<open>async\<close> function is a state transformer that resolves (\<open>Inr\<close>) or rejects
  (\<open>Inl\<close>, with the error's message); the state reached is returned in both cases,
  since what a call did before it threw stays done.
\<close>

type_synonym 'a async = "auth_state \<Rightarrow> (string + 'a) \<times> auth_state"

definition resolve :: "'a \<Rightarrow> 'a async" where
  "resolve a s = (Inr a, s)"

definition reject :: "string \<Rightarrow> 'a async" where
  "reject e s = (Inl e, s)"

definition await :: "'a async \<Rightarrow> ('a \<Rightarrow> 'b async) \<Rightarrow> 'b async" where
  "await m f s = (case m s of (Inl e, s') \<Rightarrow> (Inl e, s') | (Inr a, s') \<Rightarrow> f a s')"

definition try_catch :: "'a async \<Rightarrow> (string \<Rightarrow> 'a async) \<Rightarrow> 'a async" where
  "try_catch m h s = (case m s of (Inl e, s') \<Rightarrow> h e s' | (Inr a, s') \<Rightarrow> (Inr a, s'))"

definition emit :: "event \<Rightarrow> auth_state \<Rightarrow> auth_state" where
  "emit ev s = s\<lparr>trace := trace s @ [ev]\<rparr>"

definition Date_now :: "'z oauth_env_scheme \<Rightarrow> int async" where
  "Date_now env s = (Inr (date_now env (length (trace s))), s)"

definition show_opt :: "string option \<Rightarrow> string" where
  "show_opt x = (case x of None \<Rightarrow> ''undefined'' | Some s \<Rightarrow> s)"

subsection \<open>CredentialStorage\<close>

definition loadCredentials :: "'z oauth_env_scheme \<Rightarrow> StoredCredentials option async" where
  "loadCredentials env s =
     (case read_error env (length (trace s)) of
        Some e \<Rightarrow> (Inl e, emit ReadCredentials s)
      | None \<Rightarrow> (Inr (stored s), emit ReadCredentials s))"

definition saveCredentials :: "'z oauth_env_scheme \<Rightarrow> StoredCredentials \<Rightarrow> unit async" where
  "saveCredentials env credentials s =
     (case write_error env (length (trace s)) of
        Some e \<Rightarrow> (Inl e, emit (WriteCredentials credentials) s)
      | None \<Rightarrow> (Inr (), (emit (WriteCredentials credentials) s)\<lparr>stored := Some credentials\<rparr>))"

subsection \<open>OAuth2Client\<close>

definition redirectUri :: string where
  "redirectUri = ''http://localhost:3000/callback''"

definition getStoredCredentials :: "'z oauth_env_scheme \<Rightarrow> StoredCredentials option async" where
  "getStoredCredentials env = loadCredentials env"

definition discoverMetadata :: "'z oauth_env_scheme \<Rightarrow> string \<Rightarrow> OAuthMetadata async" where
  "discoverMetadata env mcpServerUrl s =
     (case fetch_metadata env (length (trace s)) mcpServerUrl of
        Inl e \<Rightarrow> (Inl e, emit (FetchMetadata mcpServerUrl) s)
      | Inr response \<Rightarrow>
          if \<not> ok response
          then (Inl (''Failed to fetch OAuth metadata: '' @ statusText response),
                emit (FetchMetadata mcpServerUrl) s)
          else (body_json response, emit (FetchMetadata mcpServerUrl) s))"

definition registerClient :: "'z oauth_env_scheme \<Rightarrow> string \<Rightarrow> RegistrationResponse async" where
  "registerClient env registrationEndpoint s =
     (case post_registration env (length (trace s)) registrationEndpoint of
        Inl e \<Rightarrow> (Inl e, emit (PostRegistration registrationEndpoint) s)
      | Inr response \<Rightarrow>
          if \<not> ok response
          then (Inl (''Client registration failed: '' @ statusText response @ '' - ''
                       @ body_text response),
                emit (PostRegistration registrationEndpoint) s)
          else (body_json response, emit (PostRegistration registrationEndpoint) s))"

definition fetch_token ::
  "'z oauth_env_scheme \<Rightarrow> string \<Rightarrow> (string \<times> string) list \<Rightarrow> TokenData response async" where
  "fetch_token env tokenEndpoint body s =
     (post_token env (length (trace s)) tokenEndpoint body, emit (PostToken tokenEndpoint body) s)"

definition startCallbackServer ::
  "'z oauth_env_scheme \<Rightarrow> string \<Rightarrow> string \<Rightarrow> (string \<times> string) list \<Rightarrow> string async" where
  "startCallbackServer env expectedState authEndpoint authParams s =
     (let query = callback env (length (trace s));
          s' = emit (OpenBrowser authEndpoint authParams) s
      in if truthy_str (cb_error query)
         then (Inl (''Authorization failed: '' @ show_opt (cb_error query) @ '' - ''
                      @ show_opt (cb_error_description query)), s')
         else if cb_state query \<noteq> Some expectedState
         then (Inl ''State parameter mismatch'', s')
         else (case cb_code query of
                 None \<Rightarrow> (Inl ''Missing authorization code'', s')
               | Some code \<Rightarrow> (Inr code, s')))"

text \<open>
  The form bodies (\<open>URLSearchParams\<close>) of the two token requests; a parameter that is
  absent or empty is not set.
\<close>

definition optional_param :: "string \<Rightarrow> string option \<Rightarrow> (string \<times> string) list" where
  "optional_param k x =
     (case x of Some v \<Rightarrow> (if v \<noteq> [] then [(k, v)] else []) | None \<Rightarrow> [])"

definition exchange_body ::
  "string \<Rightarrow> string \<Rightarrow> string option \<Rightarrow> string option \<Rightarrow> (string \<times> string) list" where
  "exchange_body code cid csecret codeVerifier =
     [(''grant_type'', ''authorization_code''), (''code'', code),
      (''redirect_uri'', redirectUri), (''client_id'', cid)]
     @ optional_param ''code_verifier'' codeVerifier
     @ optional_param ''client_secret'' csecret"

definition refresh_body :: "string \<Rightarrow> string \<Rightarrow> string option \<Rightarrow> (string \<times> string) list" where
  "refresh_body refreshTok cid csecret =
     [(''grant_type'', ''refresh_token''), (''refresh_token'', refreshTok),
      (''client_id'', cid)]
     @ optional_param ''client_secret'' csecret"

definition exchangeCodeForToken ::
  "'z oauth_env_scheme \<Rightarrow> string \<Rightarrow> string \<Rightarrow> string \<Rightarrow> string option \<Rightarrow> string option
     \<Rightarrow> TokenData async" where
  "exchangeCodeForToken env tokenEndpoint code cid csecret codeVerifier =
     await (fetch_token env tokenEndpoint (exchange_body code cid csecret codeVerifier))
       (\<lambda>response.
          if \<not> ok response
          then reject (''Token exchange failed: '' @ statusText response @ '' - ''
                         @ body_text response)
          else (\<lambda>s. (body_json response, s)))"

text \<open>
  \<open>expires_in ? Date.now() + expires_in * 1000 : undefined\<close>, for \<open>now\<close> the value of
  \<open>Date.now()\<close>.
\<close>

definition expiry :: "int \<Rightarrow> int option \<Rightarrow> int option" where
  "expiry now expires =
     (case expires of
        Some n \<Rightarrow> (if n \<noteq> 0 then Some (now + n * 1000) else None)
      | None \<Rightarrow> None)"

definition authorize ::
  "'z oauth_env_scheme \<Rightarrow> string \<Rightarrow> string \<Rightarrow> string \<Rightarrow> string option
     \<Rightarrow> StoredCredentials async" where
  "authorize env authorizationEndpoint tokenEndpoint cid csecret s =
     (let codeVerifier = random_base64url env (length (trace s));
          codeChallenge = sha256_base64url env codeVerifier;
          state = random_hex env (length (trace s))
      in if \<not> url_parses env authorizationEndpoint then (Inl ''Invalid URL'', s)
         else
           await (startCallbackServer env state authorizationEndpoint
                    [(''client_id'', cid), (''redirect_uri'', redirectUri),
                     (''response_type'', ''code''), (''state'', state),
                     (''code_challenge'', codeChallenge),
                     (''code_challenge_method'', ''S256''), (''scope'', ''read write'')])
             (\<lambda>authCode.
                await (exchangeCodeForToken env tokenEndpoint authCode cid csecret
                         (Some codeVerifier))
                  (\<lambda>tokenResponse.
                     await (Date_now env)
                       (\<lambda>now.
                          let credentials =
                                \<lparr>clientId = cid, clientSecret = csecret,
                                 accessToken = access_token tokenResponse,
                                 refreshToken = refresh_token tokenResponse,
                                 tokenType = token_type tokenResponse,
                                 expiresAt = expiry now (expires_in tokenResponse),
                                 registrationResponse = None\<rparr>
                          in await (saveCredentials env credentials)
                               (\<lambda>_. resolve credentials)))) s)"

definition refreshAccessToken ::
  "'z oauth_env_scheme \<Rightarrow> string \<Rightarrow> string \<Rightarrow> string \<Rightarrow> string option
     \<Rightarrow> StoredCredentials async" where
  "refreshAccessToken env tokenEndpoint refreshTok cid csecret =
     await (fetch_token env tokenEndpoint (refresh_body refreshTok cid csecret))
       (\<lambda>response.
          if \<not> ok response
          then reject (''Token refresh failed: '' @ statusText response @ '' - ''
                         @ body_text response)
          else
            await (\<lambda>s. (body_json response, s))
              (\<lambda>tokenData.
                 await (Date_now env)
                   (\<lambda>now.
                      let credentials =
                            \<lparr>clientId = cid, clientSecret = csecret,
                             accessToken = access_token tokenData,
                             refreshToken =
                               (if truthy_str (refresh_token tokenData)
                                then refresh_token tokenData else Some refreshTok),
                             tokenType = token_type tokenData,
                             expiresAt = expiry now (expires_in tokenData),
                             registrationResponse = None\<rparr>
                      in await (saveCredentials env credentials)
                           (\<lambda>_. resolve credentials))))"


section \<open>mcp-client.ts\<close>

definition mcpServerUrl :: string where
  "mcpServerUrl = ''https://mcp.linear.app/mcp''"

definition performFullAuth :: "'z oauth_env_scheme \<Rightarrow> StoredCredentials async" where
  "performFullAuth env =
     await (discoverMetadata env mcpServerUrl)
       (\<lambda>metadata.
          await (getStoredCredentials env)
            (\<lambda>storedCreds.
               await
                 (case (case storedCreds of None \<Rightarrow> None
                        | Some c \<Rightarrow> registrationResponse c) of
                    Some reg \<Rightarrow> resolve reg
                  | None \<Rightarrow>
                      (case registration_endpoint metadata of
                         Some ep \<Rightarrow>
                           (if ep \<noteq> [] then registerClient env ep
                            else reject
                              ''No registration endpoint found and no stored client credentials'')
                       | None \<Rightarrow> reject
                           ''No registration endpoint found and no stored client credentials''))
                 (\<lambda>registration.
                    await (authorize env (authorization_endpoint metadata)
                             (token_endpoint metadata) (client_id registration)
                             (client_secret registration))
                      (\<lambda>credentials.
                         await (getStoredCredentials env)
                           (\<lambda>_. resolve
                                  (credentials\<lparr>registrationResponse := Some registration\<rparr>))))))"

text \<open>
  The test \<open>credentials.expiresAt && credentials.expiresAt < Date.now()\<close> of
  \<open>authenticate\<close>, in the state where it is made.
\<close>

definition expired :: "'z oauth_env_scheme \<Rightarrow> StoredCredentials \<Rightarrow> auth_state \<Rightarrow> bool" where
  "expired env credentials s =
     (case expiresAt credentials of
        Some t \<Rightarrow> t \<noteq> 0 \<and> t < date_now env (length (trace s))
      | None \<Rightarrow> False)"

definition authenticate :: "'z oauth_env_scheme \<Rightarrow> StoredCredentials async" where
  "authenticate env =
     await (getStoredCredentials env)
       (\<lambda>stored_credentials.
          case stored_credentials of
            Some credentials \<Rightarrow>
              (\<lambda>s. if expired env credentials s
                    then (case refreshToken credentials of
                            Some rt \<Rightarrow>
                              if rt \<noteq> []
                              then try_catch
                                     (await (discoverMetadata env mcpServerUrl)
                                        (\<lambda>metadata.
                                           refreshAccessToken env (token_endpoint metadata) rt
                                             (clientId credentials) (clientSecret credentials)))
                                     (\<lambda>error. performFullAuth env) s
                              else performFullAuth env s
                          | None \<Rightarrow> performFullAuth env s)
                    else resolve credentials s)
          | None \<Rightarrow> performFullAuth env)"

section \<open>universal-mcp-client.ts\<close>

record ToolInfo =
  tool_name :: string
  tool_description :: "string option"
  inputSchema :: json

record ResourceInfo =
  uri :: string
  resource_name :: string
  resource_description :: "string option"
  mimeType :: "string option"

record PromptInfo =
  prompt_name :: string
  prompt_description :: "string option"
  arguments :: "json list option"

text \<open>Which of \<open>tools\<close>, \<open>resources\<close> and \<open>prompts\<close> the server's capabilities hold.\<close>

record ServerCapabilities =
  tools_capability :: bool
  resources_capability :: bool
  prompts_capability :: bool

text \<open>
  What one upstream server and its surroundings answer to one \<open>UniversalMCPClient\<close>:
  the OAuth2 environment of its \<open>OAuth2Client\<close>, the entry the credentials file holds
  for the server when the client connects, the outcome of the protocol library's
  \<open>client.connect\<close> (\<open>Some\<close> error, or \<open>None\<close>), the capabilities the server
  announced, and the outcomes of the listing and invocation calls. \<open>OAuth2Client\<close>
  bound to a server id has the operations of the client above, on that server's entry.
\<close>

record upstream_env = oauth_env +
  initial_credentials :: "StoredCredentials option"
  client_connect :: "nat \<Rightarrow> client_transport \<Rightarrow> string option"
  serverCapabilities :: "ServerCapabilities option"
  listTools_result :: "string + ToolInfo list"
  listResources_result :: "string + ResourceInfo list"
  listPrompts_result :: "string + PromptInfo list"
  callTool_result :: "string \<Rightarrow> json \<Rightarrow> string + json"
  readResource_result :: "string \<Rightarrow> string + json"
  getPrompt_result :: "string \<Rightarrow> json option \<Rightarrow> string + json"

definition client_connect_transport ::
  "'z upstream_env_scheme \<Rightarrow> client_transport \<Rightarrow> unit async" where
  "client_connect_transport env t s =
     (case client_connect env (length (trace s)) t of
        Some e \<Rightarrow> (Inl e, emit (ClientConnect t) s)
      | None \<Rightarrow> (Inr (), emit (ClientConnect t) s))"

definition connectStdio ::
  "'z upstream_env_scheme \<Rightarrow> string \<Rightarrow> string list option \<Rightarrow> (string \<times> string) list option
     \<Rightarrow> unit async" where
  "connectStdio env command args envir =
     client_connect_transport env
       (StdioClientTransport command (case args of None \<Rightarrow> [] | Some a \<Rightarrow> a) envir)"

text \<open>
  \<open>performFullAuth\<close> of \<open>UniversalMCPClient\<close> (the name is taken by
  \<open>LinearMCPClient\<close>'s) and \<open>authenticateOAuth2\<close>. Both start with a check that
  \<open>this.oauth2Client\<close> is set; \<open>connectStreamableHTTP\<close> and \<open>connectSSE\<close>, their only
  callers, set it in the statement before the call, so the check never fails and is
  left out. The \<open>OAuth2Client\<close> constructed with a server id is not among the
  sources: its methods are taken to be those of the \<open>OAuth2Client\<close> above, acting on
  the server's entry of the credentials file.
\<close>

definition performFullAuth2 ::
  "'z oauth_env_scheme \<Rightarrow> string \<Rightarrow> string option \<Rightarrow> string option \<Rightarrow> StoredCredentials async" where
  "performFullAuth2 env serverUrl manualId manualSecret =
     await (discoverMetadata env serverUrl)
       (\<lambda>metadata.
          await (getStoredCredentials env)
            (\<lambda>storedCreds.
               await
                 (case (case storedCreds of None \<Rightarrow> None
                        | Some c \<Rightarrow> registrationResponse c) of
                    Some reg \<Rightarrow> resolve (Some reg, client_id reg, client_secret reg)
                  | None \<Rightarrow>
                      (if truthy_str manualId
                       then resolve (None, show_opt manualId, manualSecret)
                       else if truthy_str (registration_endpoint metadata)
                       then try_catch
                              (await (registerClient env
                                        (show_opt (registration_endpoint metadata)))
                                 (\<lambda>reg. resolve (Some reg, client_id reg, client_secret reg)))
                              (\<lambda>error. reject
                                 ''Dynamic client registration not supported. Manual configuration required.'')
                       else reject
                         ''No registration endpoint found and no manual client credentials provided''))
                 (\<lambda>(registration, cid, csecret).
                    await (authorize env (authorization_endpoint metadata)
                             (token_endpoint metadata) cid csecret)
                      (\<lambda>credentials.
                         resolve (credentials\<lparr>registrationResponse := registration\<rparr>)))))"

definition authenticateOAuth2 ::
  "'z oauth_env_scheme \<Rightarrow> string \<Rightarrow> string option \<Rightarrow> string option \<Rightarrow> StoredCredentials async" where
  "authenticateOAuth2 env serverUrl manualId manualSecret =
     await (getStoredCredentials env)
       (\<lambda>stored_credentials.
          case stored_credentials of
            Some credentials \<Rightarrow>
              (\<lambda>s. if expired env credentials s
                    then (case refreshToken credentials of
                            Some rt \<Rightarrow>
                              if rt \<noteq> []
                              then try_catch
                                     (await (discoverMetadata env serverUrl)
                                        (\<lambda>metadata.
                                           refreshAccessToken env (token_endpoint metadata) rt
                                             (clientId credentials) (clientSecret credentials)))
                                     (\<lambda>error. performFullAuth2 env serverUrl manualId manualSecret)
                                     s
                              else performFullAuth2 env serverUrl manualId manualSecret s
                          | None \<Rightarrow> performFullAuth2 env serverUrl manualId manualSecret s)
                    else resolve credentials s)
          | None \<Rightarrow> performFullAuth2 env serverUrl manualId manualSecret)"

text \<open>
  The headers of \<open>requestInit\<close> and the headers the \<open>fetch\<close> function in use sets on
  every request (none for the plain \<open>fetch\<close>).
\<close>

definition request_headers ::
  "'z oauth_env_scheme \<Rightarrow> HTTPParams
     \<Rightarrow> ((string \<times> string) list \<times> (string \<times> string) list) async" where
  "request_headers env config =
     (if requiresAuth config = Some True \<and> authType config = Some OAuth2
      then await (authenticateOAuth2 env (url config) (manualClientId config)
                    (manualClientSecret config))
             (\<lambda>credentials.
                resolve
                  (map_set ''Authorization'' (''Bearer '' @ accessToken credentials)
                     (headers config),
                   [(''Authorization'', ''Bearer '' @ accessToken credentials)]))
      else if truthy_str (map_of (headers config) ''Authorization'')
      then resolve (headers config, headers config)
      else resolve (headers config, []))"

definition connectStreamableHTTP :: "'z upstream_env_scheme \<Rightarrow> HTTPParams \<Rightarrow> unit async" where
  "connectStreamableHTTP env config =
     await (request_headers env config)
       (\<lambda>(hdrs, fetchHeaders).
          if \<not> url_parses env (url config) then reject ''Invalid URL''
          else client_connect_transport env
                 (StreamableHTTPClientTransport (url config) hdrs fetchHeaders))"

definition connectSSE :: "'z upstream_env_scheme \<Rightarrow> HTTPParams \<Rightarrow> unit async" where
  "connectSSE env config =
     await (request_headers env config)
       (\<lambda>(hdrs, fetchHeaders).
          if \<not> url_parses env (url config) then reject ''Invalid URL''
          else client_connect_transport env (SSEClientTransport (url config) fetchHeaders))"

definition connect :: "'z upstream_env_scheme \<Rightarrow> ServerConfig \<Rightarrow> unit async" where
  "connect env serverConfig =
     (case transport serverConfig of
        Stdio command args envir \<Rightarrow> connectStdio env command args envir
      | StreamableHTTP config \<Rightarrow> connectStreamableHTTP env config
      | SSE config \<Rightarrow> connectSSE env config
      | WebSocket u h \<Rightarrow> reject ''WebSocket transport not yet implemented''
      | OtherTransport t \<Rightarrow> reject (''Unknown transport type: '' @ t))"


section \<open>aggregator-server.ts\<close>

text \<open>
  A \<open>UniversalMCPClient\<close> is made from a server configuration and talks to that
  server. The fields \<open>serverId\<close> and \<open>originalName\<close> of the three aggregated records
  carry the record's kind in their names here.
\<close>

datatype UniversalMCPClient = UniversalMCPClient ServerConfig

record AggregatedTool = ToolInfo +
  tool_serverId :: string
  tool_originalName :: string

record AggregatedResource = ResourceInfo +
  resource_serverId :: string
  originalUri :: string

record AggregatedPrompt = PromptInfo +
  prompt_serverId :: string
  prompt_originalName :: string

text \<open>
  The lines \<open>initialize\<close>, the callback of \<open>listen\<close> in \<open>start\<close>, and \<open>main\<close>
  write with \<open>console.error\<close>.
\<close>

datatype log_line =
    StartingServer
  | InvalidPortNumber
  | LoadingConfigurations
  | WarningNoServers
  | FoundServers nat
  | Connecting string
  | Connected string
  | FoundTools nat
  | ErrorLoadingTools string
  | FoundResources nat
  | ErrorLoadingResources string
  | FoundPrompts nat
  | ErrorLoadingPrompts string
  | FailedToConnect string string
  | Initialized nat nat nat
  | Listening int
  | ReadyToAccept
  | ServerStarted
  | FatalError string

record AggregatorMCPServer =
  clients :: "(string \<times> UniversalMCPClient) list"
  configManager :: "(string \<times> ServerConfig) list"
  tools :: "(string \<times> AggregatedTool) list"
  resources :: "(string \<times> AggregatedResource) list"
  prompts :: "(string \<times> AggregatedPrompt) list"
  port :: int
  console :: "log_line list"

definition new_AggregatorMCPServer :: "int \<Rightarrow> log_line list \<Rightarrow> AggregatorMCPServer" where
  "new_AggregatorMCPServer p out =
     \<lparr>clients = [], configManager = [], tools = [], resources = [], prompts = [],
      port = p, console = out\<rparr>"

text \<open>
  Everything outside the gateway: the outcome of reading and parsing the configuration
  file, each upstream, whether the protocol library's \<open>server.connect\<close> rejects, and
  the \<open>error\<close> event, if any, that the HTTP server emits in place of \<open>listening\<close>
  when it cannot bind a port (as when the port is in use). \<open>initialize\<close> makes one
  client for each configured server and calls each of its methods at most once, and a
  request makes one call, so answers that depend on the server (and on the arguments of a
  call) alone lose nothing.
\<close>

record world =
  mcp_servers_json :: config_file
  upstream :: "ServerConfig \<Rightarrow> upstream_env"
  server_connect_error :: "string option"
  listen_error :: "int \<Rightarrow> string option"

definition console_error :: "log_line \<Rightarrow> AggregatorMCPServer \<Rightarrow> AggregatorMCPServer" where
  "console_error l this = this\<lparr>console := console this @ [l]\<rparr>"

text \<open>\<open>x || d\<close> on an optional string, \<open>capabilities?.field\<close>, and the template literals.\<close>

definition or_else :: "string option \<Rightarrow> string \<Rightarrow> string" where
  "or_else x d = (case x of Some s \<Rightarrow> (if s \<noteq> [] then s else d) | None \<Rightarrow> d)"

definition prefixedName :: "ServerConfig \<Rightarrow> string \<Rightarrow> string" where
  "prefixedName serverConfig n = server_id serverConfig @ ''__'' @ n"

definition prefixedUri :: "ServerConfig \<Rightarrow> string \<Rightarrow> string" where
  "prefixedUri serverConfig u = server_id serverConfig @ ''://'' @ u"

definition aggregated_tool :: "ServerConfig \<Rightarrow> ToolInfo \<Rightarrow> AggregatedTool" where
  "aggregated_tool serverConfig tool =
     \<lparr>tool_name = prefixedName serverConfig (tool_name tool),
      tool_description =
        Some (''['' @ name serverConfig @ ''] ''
                @ or_else (tool_description tool) (tool_name tool)),
      inputSchema = inputSchema tool,
      tool_serverId = server_id serverConfig,
      tool_originalName = tool_name tool\<rparr>"

definition aggregated_resource :: "ServerConfig \<Rightarrow> ResourceInfo \<Rightarrow> AggregatedResource" where
  "aggregated_resource serverConfig resource =
     \<lparr>uri = prefixedUri serverConfig (uri resource),
      resource_name = ''['' @ name serverConfig @ ''] '' @ resource_name resource,
      resource_description = resource_description resource,
      mimeType = mimeType resource,
      resource_serverId = server_id serverConfig,
      originalUri = uri resource\<rparr>"

definition aggregated_prompt :: "ServerConfig \<Rightarrow> PromptInfo \<Rightarrow> AggregatedPrompt" where
  "aggregated_prompt serverConfig prompt =
     \<lparr>prompt_name = prefixedName serverConfig (prompt_name prompt),
      prompt_description =
        Some (''['' @ name serverConfig @ ''] ''
                @ or_else (prompt_description prompt) (prompt_name prompt)),
      arguments = arguments prompt,
      prompt_serverId = server_id serverConfig,
      prompt_originalName = prompt_name prompt\<rparr>"

text \<open>The three \<open>for\<close> loops that set the entries of a server in the registry.\<close>

definition set_tools ::
  "ServerConfig \<Rightarrow> ToolInfo list \<Rightarrow> (string \<times> AggregatedTool) list
     \<Rightarrow> (string \<times> AggregatedTool) list" where
  "set_tools serverConfig ts m =
     foldl (\<lambda>m tool. map_set (prefixedName serverConfig (tool_name tool))
                        (aggregated_tool serverConfig tool) m) m ts"

definition set_resources ::
  "ServerConfig \<Rightarrow> ResourceInfo list \<Rightarrow> (string \<times> AggregatedResource) list
     \<Rightarrow> (string \<times> AggregatedResource) list" where
  "set_resources serverConfig rs m =
     foldl (\<lambda>m resource. map_set (prefixedUri serverConfig (uri resource))
                            (aggregated_resource serverConfig resource) m) m rs"

definition set_prompts ::
  "ServerConfig \<Rightarrow> PromptInfo list \<Rightarrow> (string \<times> AggregatedPrompt) list
     \<Rightarrow> (string \<times> AggregatedPrompt) list" where
  "set_prompts serverConfig ps m =
     foldl (\<lambda>m prompt. map_set (prefixedName serverConfig (prompt_name prompt))
                          (aggregated_prompt serverConfig prompt) m) m ps"

definition has_capability ::
  "(ServerCapabilities \<Rightarrow> bool) \<Rightarrow> ServerCapabilities option \<Rightarrow> bool" where
  "has_capability field capabilities =
     (case capabilities of None \<Rightarrow> False | Some c \<Rightarrow> field c)"

text \<open>
  The three blocks of \<open>initialize\<close> that list a kind of capability, each inside its own
  \<open>try\<close>/\<open>catch\<close>: a listing that fails is logged and leaves the registry as it was.
\<close>

definition aggregate_tools ::
  "upstream_env \<Rightarrow> ServerConfig \<Rightarrow> AggregatorMCPServer \<Rightarrow> AggregatorMCPServer" where
  "aggregate_tools env serverConfig this =
     (if has_capability tools_capability (serverCapabilities env)
      then (case listTools_result env of
              Inr ts \<Rightarrow>
                (console_error (FoundTools (length ts)) this)
                  \<lparr>tools := set_tools serverConfig ts (tools this)\<rparr>
            | Inl error \<Rightarrow> console_error (ErrorLoadingTools error) this)
      else this)"

definition aggregate_resources ::
  "upstream_env \<Rightarrow> ServerConfig \<Rightarrow> AggregatorMCPServer \<Rightarrow> AggregatorMCPServer" where
  "aggregate_resources env serverConfig this =
     (if has_capability resources_capability (serverCapabilities env)
      then (case listResources_result env of
              Inr rs \<Rightarrow>
                (console_error (FoundResources (length rs)) this)
                  \<lparr>resources := set_resources serverConfig rs (resources this)\<rparr>
            | Inl error \<Rightarrow> console_error (ErrorLoadingResources error) this)
      else this)"

definition aggregate_prompts ::
  "upstream_env \<Rightarrow> ServerConfig \<Rightarrow> AggregatorMCPServer \<Rightarrow> AggregatorMCPServer" where
  "aggregate_prompts env serverConfig this =
     (if has_capability prompts_capability (serverCapabilities env)
      then (case listPrompts_result env of
              Inr ps \<Rightarrow>
                (console_error (FoundPrompts (length ps)) this)
                  \<lparr>prompts := set_prompts serverConfig ps (prompts this)\<rparr>
            | Inl error \<Rightarrow> console_error (ErrorLoadingPrompts error) this)
      else this)"

text \<open>
  The outcome of \<open>client.connect()\<close> on a fresh client of the server: the client runs
  against the server's entry of the credentials file, from an empty trace.
\<close>

definition client_connect_result :: "world \<Rightarrow> ServerConfig \<Rightarrow> string + unit" where
  "client_connect_result w serverConfig =
     fst (connect (upstream w serverConfig) serverConfig
            \<lparr>stored = initial_credentials (upstream w serverConfig), trace = []\<rparr>)"

text \<open>The body of the loop of \<open>initialize\<close>: one server, inside its \<open>try\<close>/\<open>catch\<close>.\<close>

definition connect_server ::
  "world \<Rightarrow> AggregatorMCPServer \<Rightarrow> ServerConfig \<Rightarrow> AggregatorMCPServer" where
  "connect_server w this serverConfig =
     (case client_connect_result w serverConfig of
        Inl error \<Rightarrow>
          console_error (FailedToConnect (name serverConfig) error)
            (console_error (Connecting (name serverConfig)) this)
      | Inr _ \<Rightarrow>
          aggregate_prompts (upstream w serverConfig) serverConfig
            (aggregate_resources (upstream w serverConfig) serverConfig
               (aggregate_tools (upstream w serverConfig) serverConfig
                  ((console_error (Connected (name serverConfig))
                      (console_error (Connecting (name serverConfig)) this))
                     \<lparr>clients := map_set (server_id serverConfig)
                                   (UniversalMCPClient serverConfig) (clients this)\<rparr>))))"

definition initialize :: "world \<Rightarrow> AggregatorMCPServer \<Rightarrow> AggregatorMCPServer" where
  "initialize w this =
     (let this1 = (console_error LoadingConfigurations this)
                    \<lparr>configManager := load (mcp_servers_json w)\<rparr>;
          servers = getAllServers (configManager this1)
      in if length servers = 0 then console_error WarningNoServers this1
         else let this2 = foldl (connect_server w)
                            (console_error (FoundServers (length servers)) this1) servers
              in console_error
                   (Initialized (length (tools this2)) (length (resources this2))
                      (length (prompts this2)))
                   this2)"

subsection \<open>Request handlers\<close>

datatype request =
    CallToolRequest string "json option"
  | ReadResourceRequest string
  | GetPromptRequest string "json option"

definition client_callTool :: "world \<Rightarrow> UniversalMCPClient \<Rightarrow> string \<Rightarrow> json \<Rightarrow> string + json" where
  "client_callTool w client toolName args =
     (case client of UniversalMCPClient serverConfig \<Rightarrow>
        callTool_result (upstream w serverConfig) toolName args)"

definition client_readResource :: "world \<Rightarrow> UniversalMCPClient \<Rightarrow> string \<Rightarrow> string + json" where
  "client_readResource w client resourceUri =
     (case client of UniversalMCPClient serverConfig \<Rightarrow>
        readResource_result (upstream w serverConfig) resourceUri)"

definition client_getPrompt ::
  "world \<Rightarrow> UniversalMCPClient \<Rightarrow> string \<Rightarrow> json option \<Rightarrow> string + json" where
  "client_getPrompt w client promptName args =
     (case client of UniversalMCPClient serverConfig \<Rightarrow>
        getPrompt_result (upstream w serverConfig) promptName args)"

definition arguments_or_empty :: "json option \<Rightarrow> json" where
  "arguments_or_empty args =
     (case args of Some a \<Rightarrow> (if truthy_json (Some a) then a else JObj []) | None \<Rightarrow> JObj [])"

text \<open>
  A handler resolves with the upstream's result or rejects with an error, which the
  protocol library returns to the caller; the server object is returned as the handler
  leaves it.
\<close>

definition handle_request ::
  "world \<Rightarrow> request \<Rightarrow> AggregatorMCPServer \<Rightarrow> (string + json) \<times> AggregatorMCPServer" where
  "handle_request w req this =
     (case req of
        CallToolRequest toolName args \<Rightarrow>
          (case map_of (tools this) toolName of
             None \<Rightarrow> (Inl (''Tool not found: '' @ toolName), this)
           | Some tool \<Rightarrow>
               (case map_of (clients this) (tool_serverId tool) of
                  None \<Rightarrow> (Inl (''Client not found for server: '' @ tool_serverId tool), this)
                | Some client \<Rightarrow>
                    (client_callTool w client (tool_originalName tool)
                       (arguments_or_empty args), this)))
      | ReadResourceRequest resourceUri \<Rightarrow>
          (case map_of (resources this) resourceUri of
             None \<Rightarrow> (Inl (''Resource not found: '' @ resourceUri), this)
           | Some resource \<Rightarrow>
               (case map_of (clients this) (resource_serverId resource) of
                  None \<Rightarrow>
                    (Inl (''Client not found for server: '' @ resource_serverId resource), this)
                | Some client \<Rightarrow>
                    (client_readResource w client (originalUri resource), this)))
      | GetPromptRequest promptName args \<Rightarrow>
          (case map_of (prompts this) promptName of
             None \<Rightarrow> (Inl (''Prompt not found: '' @ promptName), this)
           | Some prompt \<Rightarrow>
               (case map_of (clients this) (prompt_serverId prompt) of
                  None \<Rightarrow>
                    (Inl (''Client not found for server: '' @ prompt_serverId prompt), this)
                | Some client \<Rightarrow>
                    (client_getPrompt w client (prompt_originalName prompt) args, this))))"

subsection \<open>start\<close>




section \<open>start-aggregator.ts\<close>

text \<open>
  \<open>process.argv[2]\<close> is kept as the list of its UTF-16 code units, because the white
  space that \<open>parseInt\<close> skips goes beyond ASCII; \<open>code_units\<close> gives the code units
  of an ASCII text.
\<close>

type_synonym js_string = "nat list"

definition code_units :: "string \<Rightarrow> js_string" where
  "code_units s = map of_char s"

text \<open>
  \<open>parseInt(s, 10)\<close>: leading white space is skipped (the white space and the line
  terminators of ECMAScript: TAB, LF, VT, FF, CR, SP, NBSP, U+1680, U+2000 to U+200A,
  U+2028, U+2029, U+202F, U+205F, U+3000 and U+FEFF), one sign is read, and the longest
  run of decimal digits that follows is the value; with no digit there the result is
  \<open>NaN\<close> (\<open>None\<close>). The value is the exact integer, which is what JavaScript has up
  to \<open>2^53\<close>, far beyond the ports \<open>listen\<close> accepts.
\<close>

definition is_space :: "nat \<Rightarrow> bool" where
  "is_space c =
     (c \<in> set [0x09, 0x0A, 0x0B, 0x0C, 0x0D, 0x20, 0xA0, 0x1680, 0x2028, 0x2029, 0x202F,
               0x205F, 0x3000, 0xFEFF]
      \<or> (0x2000 \<le> c \<and> c \<le> 0x200A))"

definition is_digit :: "nat \<Rightarrow> bool" where
  "is_digit c = (0x30 \<le> c \<and> c \<le> 0x39)"

definition digit_value :: "nat \<Rightarrow> int" where
  "digit_value c = int c - 0x30"

definition digits_value :: "js_string \<Rightarrow> int" where
  "digits_value ds = foldl (\<lambda>a c. 10 * a + digit_value c) 0 ds"

definition parseInt :: "js_string \<Rightarrow> int option" where
  "parseInt s =
     (let t = dropWhile is_space s;
          negative = (case t of c # r \<Rightarrow> c = 0x2D | [] \<Rightarrow> False);
          u = (case t of c # r \<Rightarrow> (if c = 0x2D \<or> c = 0x2B then r else t) | [] \<Rightarrow> t);
          ds = takeWhile is_digit u
      in if ds = [] then None
         else Some (if negative then - digits_value ds else digits_value ds))"






section \<open>Observations used in the statements\<close>

text \<open>Whether the registry holds the identifier a request names, and the error if not.\<close>

definition registered :: "AggregatorMCPServer \<Rightarrow> request \<Rightarrow> bool" where
  "registered this req =
     (case req of
        CallToolRequest toolName args \<Rightarrow> map_of (tools this) toolName \<noteq> None
      | ReadResourceRequest resourceUri \<Rightarrow> map_of (resources this) resourceUri \<noteq> None
      | GetPromptRequest promptName args \<Rightarrow> map_of (prompts this) promptName \<noteq> None)"

definition not_found_message :: "request \<Rightarrow> string" where
  "not_found_message req =
     (case req of
        CallToolRequest toolName args \<Rightarrow> ''Tool not found: '' @ toolName
      | ReadResourceRequest resourceUri \<Rightarrow> ''Resource not found: '' @ resourceUri
      | GetPromptRequest promptName args \<Rightarrow> ''Prompt not found: '' @ promptName)"


text \<open>
  Events of the trace by kind: a refresh-token grant sent to the token endpoint, any
  request to the token endpoint, and how many events of a kind a state's trace holds.
\<close>

definition is_refresh :: "event \<Rightarrow> bool" where
  "is_refresh ev =
     (case ev of
        PostToken ep body \<Rightarrow> map_of body ''grant_type'' = Some ''refresh_token''
      | _ \<Rightarrow> False)"

definition is_token_request :: "event \<Rightarrow> bool" where
  "is_token_request ev = (case ev of PostToken ep body \<Rightarrow> True | _ \<Rightarrow> False)"

definition count_events :: "(event \<Rightarrow> bool) \<Rightarrow> auth_state \<Rightarrow> nat" where
  "count_events P s = length (filter P (trace s))"

text \<open>
  An asynchronous function is \<open>silent\<close> for a kind of event when no run of it adds
  such an event, and \<open>growing\<close> when no run of it loses one.
\<close>

definition silent :: "(event \<Rightarrow> bool) \<Rightarrow> 'a async \<Rightarrow> bool" where
  "silent P m = (\<forall>s. count_events P (snd (m s)) = count_events P s)"

definition growing :: "(event \<Rightarrow> bool) \<Rightarrow> 'a async \<Rightarrow> bool" where
  "growing P m = (\<forall>s. count_events P s \<le> count_events P (snd (m s)))"

text \<open>
  What one pass of \<open>initialize\<close> gets from a server: whether its client connects, the
  error if not, and the tools, resources and prompts it lists (none when the client does
  not connect, when the server does not announce the capability, or when the listing
  call fails).
\<close>

definition connects :: "world \<Rightarrow> ServerConfig \<Rightarrow> bool" where
  "connects w serverConfig =
     (case client_connect_result w serverConfig of Inr u \<Rightarrow> True | Inl e \<Rightarrow> False)"

definition connect_error :: "world \<Rightarrow> ServerConfig \<Rightarrow> string" where
  "connect_error w serverConfig =
     (case client_connect_result w serverConfig of Inr u \<Rightarrow> [] | Inl e \<Rightarrow> e)"

definition listed_tools :: "world \<Rightarrow> ServerConfig \<Rightarrow> ToolInfo list" where
  "listed_tools w serverConfig =
     (if connects w serverConfig \<and>
         has_capability tools_capability (serverCapabilities (upstream w serverConfig))
      then (case listTools_result (upstream w serverConfig) of Inr ts \<Rightarrow> ts | Inl e \<Rightarrow> [])
      else [])"

definition listed_resources :: "world \<Rightarrow> ServerConfig \<Rightarrow> ResourceInfo list" where
  "listed_resources w serverConfig =
     (if connects w serverConfig \<and>
         has_capability resources_capability (serverCapabilities (upstream w serverConfig))
      then (case listResources_result (upstream w serverConfig) of Inr rs \<Rightarrow> rs | Inl e \<Rightarrow> [])
      else [])"

definition listed_prompts :: "world \<Rightarrow> ServerConfig \<Rightarrow> PromptInfo list" where
  "listed_prompts w serverConfig =
     (if connects w serverConfig \<and>
         has_capability prompts_capability (serverCapabilities (upstream w serverConfig))
      then (case listPrompts_result (upstream w serverConfig) of Inr ps \<Rightarrow> ps | Inl e \<Rightarrow> [])
      else [])"

text \<open>
  The three kinds of capability, seen alike: the original identifiers a server lists,
  the public identifier the gateway gives one, and what the registry records under a
  public identifier (the entry's own identifier, its owning server's id and its
  original identifier).
\<close>

datatype capability = Operation | Resource | PromptTemplate

definition listed :: "world \<Rightarrow> ServerConfig \<Rightarrow> capability \<Rightarrow> string list" where
  "listed w serverConfig kind =
     (case kind of
        Operation \<Rightarrow> map tool_name (listed_tools w serverConfig)
      | Resource \<Rightarrow> map uri (listed_resources w serverConfig)
      | PromptTemplate \<Rightarrow> map prompt_name (listed_prompts w serverConfig))"

definition namespaced :: "capability \<Rightarrow> ServerConfig \<Rightarrow> string \<Rightarrow> string" where
  "namespaced kind serverConfig n =
     (case kind of
        Operation \<Rightarrow> prefixedName serverConfig n
      | Resource \<Rightarrow> prefixedUri serverConfig n
      | PromptTemplate \<Rightarrow> prefixedName serverConfig n)"

definition recorded ::
  "AggregatorMCPServer \<Rightarrow> capability \<Rightarrow> string \<Rightarrow> (string \<times> string \<times> string) option" where
  "recorded this kind k =
     (case kind of
        Operation \<Rightarrow>
          map_option (\<lambda>e. (tool_name e, tool_serverId e, tool_originalName e))
            (map_of (tools this) k)
      | Resource \<Rightarrow>
          map_option (\<lambda>e. (uri e, resource_serverId e, originalUri e))
            (map_of (resources this) k)
      | PromptTemplate \<Rightarrow>
          map_option (\<lambda>e. (prompt_name e, prompt_serverId e, prompt_originalName e))
            (map_of (prompts this) k))"

definition is_failure :: "log_line \<Rightarrow> bool" where
  "is_failure l = (case l of FailedToConnect n e \<Rightarrow> True | _ \<Rightarrow> False)"

text \<open>
  Every registration one pass of \<open>initialize\<close> makes for a kind of capability, in the
  order of the pass: for each server in turn and each original identifier it lists, the
  public identifier and what is recorded under it.
\<close>

definition registrations ::
  "world \<Rightarrow> ServerConfig list \<Rightarrow> capability
     \<Rightarrow> (string \<times> (string \<times> string \<times> string)) list" where
  "registrations w servers kind =
     concat (map (\<lambda>s. map (\<lambda>n. (namespaced kind s n, (namespaced kind s n, server_id s, n)))
                        (listed w s kind))
               servers)"


section \<open>Example inputs\<close>

definition stdio_server :: "string \<Rightarrow> string \<Rightarrow> int \<Rightarrow> int option \<Rightarrow> ServerConfig" where
  "stdio_server i n created used =
     \<lparr>server_id = i, name = n, description = None, transport = Stdio ''node'' None None,
      createdAt = created, lastUsed = used\<rparr>"

definition websocket_server :: ServerConfig where
  "websocket_server =
     \<lparr>server_id = ''gamma'', name = ''Gamma'', description = None,
      transport = WebSocket ''ws://localhost:9000'' [], createdAt = 3, lastUsed = None\<rparr>"

definition servers_zero_lastUsed :: "(string \<times> ServerConfig) list" where
  "servers_zero_lastUsed =
     [(''a'', stdio_server ''a'' ''A'' 1 (Some 0)), (''b'', stdio_server ''b'' ''B'' 5 None)]"

definition servers_example :: "(string \<times> ServerConfig) list" where
  "servers_example =
     [(''a'', stdio_server ''a'' ''A'' 1 None), (''b'', stdio_server ''b'' ''B'' 5 None),
      (''c'', stdio_server ''c'' ''C'' 2 (Some 10)), (''d'', stdio_server ''d'' ''D'' 3 (Some 20))]"

text \<open>An OAuth2 environment in which every request fails and the user denies access.\<close>

definition offline_oauth :: oauth_env where
  "offline_oauth =
     \<lparr>date_now = (\<lambda>n. 1000), read_error = (\<lambda>n. None), write_error = (\<lambda>n. None),
      fetch_metadata = (\<lambda>n u. Inl ''fetch failed''),
      post_registration = (\<lambda>n u. Inl ''fetch failed''),
      post_token = (\<lambda>n u b. Inl ''fetch failed''),
      random_base64url = (\<lambda>n. ''verifier''), random_hex = (\<lambda>n. ''state''),
      sha256_base64url = (\<lambda>v. ''challenge''), url_parses = (\<lambda>u. True),
      callback = (\<lambda>n. \<lparr>cb_code = None, cb_state = None, cb_error = Some ''access_denied'',
                         cb_error_description = None\<rparr>)\<rparr>"

text \<open>
  An upstream that accepts the connection and exposes the tool \<open>ping\<close>, one resource
  and the prompt \<open>greet\<close>; its results name the server that produced them.
\<close>

definition ping_upstream :: "string \<Rightarrow> upstream_env" where
  "ping_upstream i =
     oauth_env.extend offline_oauth
       (upstream_env.fields None (\<lambda>n t. None)
          (Some \<lparr>tools_capability = True, resources_capability = True,
                 prompts_capability = True\<rparr>)
          (Inr [\<lparr>tool_name = ''ping'', tool_description = None, inputSchema = JObj []\<rparr>])
          (Inr [\<lparr>uri = ''file:///log'', resource_name = ''log'', resource_description = None,
                 mimeType = None\<rparr>])
          (Inr [\<lparr>prompt_name = ''greet'', prompt_description = Some ''Greets'',
                 arguments = None\<rparr>])
          (\<lambda>n a. Inr (JObj [(''server'', JStr i), (''tool'', JStr n), (''arguments'', a)]))
          (\<lambda>u. Inr (JObj [(''server'', JStr i), (''uri'', JStr u)]))
          (\<lambda>n a. Inr (JObj [(''server'', JStr i), (''prompt'', JStr n)])))"

text \<open>
  The configuration of \<open>alpha\<close> and \<open>beta\<close>, which both expose \<open>ping\<close>, and of
  \<open>gamma\<close>, whose transport is a WebSocket; and the gateway initialized from it.
\<close>

definition ping_world :: world where
  "ping_world =
     \<lparr>mcp_servers_json =
        Parsed [stdio_server ''alpha'' ''Alpha'' 1 None, stdio_server ''beta'' ''Beta'' 2 None,
                websocket_server],
      upstream = (\<lambda>serverConfig. ping_upstream (server_id serverConfig)),
      server_connect_error = None, listen_error = (\<lambda>p. None)\<rparr>"

definition ping_gateway :: AggregatorMCPServer where
  "ping_gateway = initialize ping_world (new_AggregatorMCPServer 3000 [])"

text \<open>
  Two servers whose namespaced identifiers meet: \<open>a\<close> exposes \<open>ping\<close> and
  \<open>b__ping\<close>, and \<open>a__b\<close>, configured later, exposes \<open>ping\<close>.
\<close>

definition named_tool :: "string \<Rightarrow> ToolInfo" where
  "named_tool n = \<lparr>tool_name = n, tool_description = None, inputSchema = JObj []\<rparr>"

definition colliding_world :: world where
  "colliding_world =
     \<lparr>mcp_servers_json =
        Parsed [stdio_server ''a'' ''A'' 1 None, stdio_server ''a__b'' ''AB'' 2 None],
      upstream = (\<lambda>serverConfig.
        (ping_upstream (server_id serverConfig))
          \<lparr>listTools_result :=
             Inr (if server_id serverConfig = ''a''
                  then [named_tool ''ping'', named_tool ''b__ping'']
                  else [named_tool ''ping''])\<rparr>),
      server_connect_error = None, listen_error = (\<lambda>p. None)\<rparr>"

text \<open>A configuration file that does not parse.\<close>

definition malformed_world :: world where
  "malformed_world =
     \<lparr>mcp_servers_json = Malformed ''Unexpected token } in JSON at position 1'',
      upstream = (\<lambda>serverConfig. ping_upstream (server_id serverConfig)),
      server_connect_error = None, listen_error = (\<lambda>p. None)\<rparr>"


text \<open>
  An authorization server whose metadata can be fetched and whose token endpoint answers
  every request with the given token response; and a stored credential with a given
  expiry and refresh token.
\<close>

definition token_oauth :: "TokenData \<Rightarrow> oauth_env" where
  "token_oauth td =
     offline_oauth
       \<lparr>fetch_metadata := (\<lambda>n u.
          Inr \<lparr>ok = True, statusText = ''OK'', body_text = [],
               body_json = Inr \<lparr>issuer = ''https://as'',
                                authorization_endpoint = ''https://as/authorize'',
                                token_endpoint = ''https://as/token'',
                                registration_endpoint = None\<rparr>\<rparr>),
        post_token := (\<lambda>n u b.
          Inr \<lparr>ok = True, statusText = ''OK'', body_text = [], body_json = Inr td\<rparr>)\<rparr>"

definition stored_credential :: "int option \<Rightarrow> string option \<Rightarrow> StoredCredentials" where
  "stored_credential expires rt =
     \<lparr>clientId = ''client'', clientSecret = None, accessToken = ''old-access'',
      refreshToken = rt, tokenType = ''Bearer'', expiresAt = expires,
      registrationResponse = None\<rparr>"

definition rotated_token :: TokenData where
  "rotated_token =
     \<lparr>access_token = ''new-access'', refresh_token = Some ''rotated'',
      token_type = ''Bearer'', expires_in = Some 3600\<rparr>"

definition bare_token :: TokenData where
  "bare_token =
     \<lparr>access_token = ''new-access'', refresh_token = None, token_type = ''Bearer'',
      expires_in = None\<rparr>"

definition zero_token :: TokenData where
  "zero_token =
     \<lparr>access_token = ''new-access'', refresh_token = Some [], token_type = ''Bearer'',
      expires_in = Some 0\<rparr>"

section \<open>Maps and sorting\<close>

lemma map_of_map_set: "map_of (map_set k v m) = (map_of m)(k \<mapsto> v)"
  by (induction m) (auto simp: fun_eq_iff)

lemma fst_set_map_set: "fst ` set (map_set k v m) = insert k (fst ` set m)"
  by (induction m) force+

lemma distinct_map_set: "distinct (map fst m) \<Longrightarrow> distinct (map fst (map_set k v m))"
proof (induction m)
  case Nil
  show ?case by simp
next
  case (Cons p m)
  obtain k' v' where p: "p = (k', v')" by (cases p)
  from Cons show ?case
    by (auto simp: p fst_set_map_set)
qed

lemma set_map_set_subset: "set (map_set k v m) \<subseteq> insert (k, v) (set m)"
  by (induction m) (auto split: if_splits)

lemma foldl_map_set_keys:
  "fst ` set (foldl (\<lambda>m x. map_set (key x) (val x) m) m xs) = fst ` set m \<union> key ` set xs"
  by (induction xs arbitrary: m) (auto simp: fst_set_map_set)

lemma foldl_map_set_entries:
  "(k, e) \<in> set (foldl (\<lambda>m x. map_set (key x) (val x) m) m xs) \<Longrightarrow>
   (k, e) \<in> set m \<or> (\<exists>x\<in>set xs. k = key x \<and> e = val x)"
proof (induction xs arbitrary: m)
  case Nil
  then show ?case by simp
next
  case (Cons x xs)
  from Cons.IH [OF Cons.prems [simplified]]
  show ?case
    using set_map_set_subset [of "key x" "val x" m] by auto
qed

lemma foldl_map_set_distinct:
  "distinct (map fst m) \<Longrightarrow>
   distinct (map fst (foldl (\<lambda>m x. map_set (key x) (val x) m) m xs))"
  by (induction xs arbitrary: m) (auto simp: distinct_map_set)

lemma map_of_defined: "k \<in> fst ` set m \<Longrightarrow> \<exists>e. map_of m k = Some e \<and> (k, e) \<in> set m"
  by (induction m) auto

lemma set_insert_by: "set (insert_by cmp x xs) = insert x (set xs)"
  by (induction xs) auto

lemma set_array_sort: "set (array_sort cmp xs) = set xs"
  by (induction xs) (auto simp: set_insert_by)

lemma length_insert_by: "length (insert_by cmp x xs) = Suc (length xs)"
  by (induction xs) auto

lemma length_array_sort: "length (array_sort cmp xs) = length xs"
  by (induction xs) (auto simp: length_insert_by)

lemma mset_insert_by: "mset (insert_by cmp x xs) = add_mset x (mset xs)"
  by (induction xs) auto

lemma mset_array_sort: "mset (array_sort cmp xs) = mset xs"
  by (induction xs) (auto simp: mset_insert_by)

lemma sorted_insert_by:
  assumes total: "\<And>a b. cmp a b \<le> 0 \<or> cmp b a \<le> 0"
    and trans: "\<And>a b c. cmp a b \<le> 0 \<Longrightarrow> cmp b c \<le> 0 \<Longrightarrow> cmp a c \<le> 0"
  shows "sorted_wrt (\<lambda>a b. cmp a b \<le> 0) xs \<Longrightarrow>
         sorted_wrt (\<lambda>a b. cmp a b \<le> 0) (insert_by cmp x xs)"
proof (induction xs)
  case Nil
  show ?case by simp
next
  case (Cons y ys)
  show ?case
  proof (cases "cmp x y \<le> 0")
    case True
    with Cons.prems show ?thesis
      by (auto intro: trans)
  next
    case False
    with total [of x y] have yx: "cmp y x \<le> 0" by simp
    from Cons have "sorted_wrt (\<lambda>a b. cmp a b \<le> 0) (insert_by cmp x ys)" by simp
    with Cons.prems yx False show ?thesis
      by (auto simp: set_insert_by)
  qed
qed

lemma sorted_array_sort:
  assumes total: "\<And>a b. cmp a b \<le> 0 \<or> cmp b a \<le> 0"
    and trans: "\<And>a b c. cmp a b \<le> 0 \<Longrightarrow> cmp b c \<le> 0 \<Longrightarrow> cmp a c \<le> 0"
  shows "sorted_wrt (\<lambda>a b. cmp a b \<le> 0) (array_sort cmp xs)"
  by (induction xs) (auto intro: sorted_insert_by [OF total trans])

lemma compareServers_total: "compareServers a b \<le> 0 \<or> compareServers b a \<le> 0"
  by (auto simp: compareServers_def truthy_num_def split: option.splits)

lemma compareServers_trans:
  "compareServers a b \<le> 0 \<Longrightarrow> compareServers b c \<le> 0 \<Longrightarrow> compareServers a c \<le> 0"
  by (auto simp: compareServers_def truthy_num_def split: option.splits if_splits)

lemma sorted_getAllServers:
  "sorted_wrt (\<lambda>a b. compareServers a b \<le> 0) (getAllServers servers)"
  unfolding getAllServers_def
  by (rule sorted_array_sort [OF compareServers_total compareServers_trans])


section \<open>The order of getAllServers\<close>

text \<open>
  Claim C9, as the code has it. \<open>getAllServers\<close> returns the configured servers, each
  as often as the map holds it, in an order where: a server whose \<open>lastUsed\<close> is set and
  not zero never comes after one whose \<open>lastUsed\<close> is absent or zero; of two servers
  with a non-zero \<open>lastUsed\<close> the more recently used comes first; of two servers
  without one the more recently created comes first.
\<close>

theorem getAllServers_order:
  "mset (getAllServers servers) = mset (map_values servers) \<and>
   (\<forall>i j. i < j \<and> j < length (getAllServers servers) \<longrightarrow>
      (truthy_num (lastUsed (getAllServers servers ! j))
         \<longrightarrow> truthy_num (lastUsed (getAllServers servers ! i))) \<and>
      (\<forall>ti tj. lastUsed (getAllServers servers ! i) = Some ti \<and> ti \<noteq> 0 \<and>
               lastUsed (getAllServers servers ! j) = Some tj \<and> tj \<noteq> 0 \<longrightarrow> tj \<le> ti) \<and>
      (\<not> truthy_num (lastUsed (getAllServers servers ! i)) \<and>
       \<not> truthy_num (lastUsed (getAllServers servers ! j))
         \<longrightarrow> createdAt (getAllServers servers ! j) \<le> createdAt (getAllServers servers ! i)))"
proof (intro conjI allI impI)
  show "mset (getAllServers servers) = mset (map_values servers)"
    by (simp add: getAllServers_def mset_array_sort)
next
  fix i j
  assume ij: "i < j \<and> j < length (getAllServers servers)"
  then have le: "compareServers (getAllServers servers ! i) (getAllServers servers ! j) \<le> 0"
    using sorted_getAllServers [of servers] by (simp add: sorted_wrt_iff_nth_less)
  {
    assume "truthy_num (lastUsed (getAllServers servers ! j))"
    with le show "truthy_num (lastUsed (getAllServers servers ! i))"
      by (auto simp: compareServers_def split: if_splits)
  next
    fix ti tj
    assume "lastUsed (getAllServers servers ! i) = Some ti \<and> ti \<noteq> 0 \<and>
            lastUsed (getAllServers servers ! j) = Some tj \<and> tj \<noteq> 0"
    with le show "tj \<le> ti"
      by (auto simp: compareServers_def truthy_num_def split: if_splits)
  next
    assume "\<not> truthy_num (lastUsed (getAllServers servers ! i)) \<and>
            \<not> truthy_num (lastUsed (getAllServers servers ! j))"
    with le show "createdAt (getAllServers servers ! j) \<le> createdAt (getAllServers servers ! i)"
      by (auto simp: compareServers_def split: if_splits)
  }
qed

lemma getAllServers_example:
  "getAllServers servers_example =
     [stdio_server ''d'' ''D'' 3 (Some 20), stdio_server ''c'' ''C'' 2 (Some 10),
      stdio_server ''b'' ''B'' 5 None, stdio_server ''a'' ''A'' 1 None]"
  by (simp add: getAllServers_def servers_example_def map_values_def compareServers_def
      truthy_num_def stdio_server_def)

theorem getAllServers_order_witness:
  "(0::nat) < 1 \<and> 1 < length (getAllServers servers_example) \<and>
   lastUsed (getAllServers servers_example ! 0) = Some 20 \<and>
   lastUsed (getAllServers servers_example ! 1) = Some 10 \<and>
   (1::nat) < 2 \<and> 2 < length (getAllServers servers_example) \<and>
   truthy_num (lastUsed (getAllServers servers_example ! 1)) \<and>
   \<not> truthy_num (lastUsed (getAllServers servers_example ! 2)) \<and>
   (2::nat) < 3 \<and> 3 < length (getAllServers servers_example) \<and>
   \<not> truthy_num (lastUsed (getAllServers servers_example ! 3)) \<and>
   createdAt (getAllServers servers_example ! 3) \<le> createdAt (getAllServers servers_example ! 2) \<and>
   mset (getAllServers servers_example) = mset (map_values servers_example)"
proof -
  have h: "(2::nat) < 3 \<and> 3 < length (getAllServers servers_example)"
    by (simp add: getAllServers_example)
  have u: "\<not> truthy_num (lastUsed (getAllServers servers_example ! 2)) \<and>
           \<not> truthy_num (lastUsed (getAllServers servers_example ! 3))"
    by (simp add: getAllServers_example stdio_server_def truthy_num_def)
  from getAllServers_order [of servers_example] h u
  have "createdAt (getAllServers servers_example ! 3)
          \<le> createdAt (getAllServers servers_example ! 2)"
    by blast
  moreover from getAllServers_order [of servers_example]
  have "mset (getAllServers servers_example) = mset (map_values servers_example)"
    by blast
  ultimately show ?thesis
    by (simp add: getAllServers_example stdio_server_def truthy_num_def)
qed

text \<open>
  A server whose \<open>lastUsed\<close> is the timestamp \<open>0\<close> is ordered as one that has none:
  here it comes after a server that was never used.
\<close>

theorem getAllServers_zero_lastUsed_counterexample:
  "lastUsed (getAllServers servers_zero_lastUsed ! 0) = None \<and>
   lastUsed (getAllServers servers_zero_lastUsed ! 1) = Some 0"
  by (simp add: getAllServers_def servers_zero_lastUsed_def map_values_def compareServers_def
      truthy_num_def stdio_server_def)


section \<open>The examples, evaluated\<close>

lemmas example_defs =
  ping_gateway_def ping_world_def ping_upstream_def offline_oauth_def websocket_server_def
  stdio_server_def colliding_world_def malformed_world_def named_tool_def

lemmas gateway_defs =
  initialize_def load_def new_Map_def getAllServers_def map_values_def compareServers_def
  truthy_num_def console_error_def new_AggregatorMCPServer_def connect_server_def
  client_connect_result_def connect_def connectStdio_def client_connect_transport_def
  emit_def reject_def aggregate_tools_def aggregate_resources_def aggregate_prompts_def
  has_capability_def set_tools_def set_resources_def set_prompts_def aggregated_tool_def
  aggregated_resource_def aggregated_prompt_def prefixedName_def prefixedUri_def or_else_def
  oauth_env.extend_def upstream_env.fields_def

lemmas observer_defs =
  connects_def connect_error_def listed_def listed_tools_def listed_resources_def
  listed_prompts_def namespaced_def recorded_def is_failure_def

lemmas oauth_defs =
  authenticate_def performFullAuth_def authorize_def refreshAccessToken_def
  exchangeCodeForToken_def startCallbackServer_def fetch_token_def registerClient_def
  discoverMetadata_def getStoredCredentials_def loadCredentials_def saveCredentials_def
  await_def try_catch_def resolve_def reject_def Date_now_def emit_def expiry_def expired_def
  refresh_body_def exchange_body_def optional_param_def truthy_str_def mcpServerUrl_def
  Let_def

lemmas oauth_example_defs =
  token_oauth_def offline_oauth_def stored_credential_def rotated_token_def bare_token_def
  zero_token_def

lemma example_server_fields:
  "server_id (stdio_server i n created used) = i"
  "name (stdio_server i n created used) = n"
  "server_id websocket_server = ''gamma''"
  "name websocket_server = ''Gamma''"
  by (simp_all add: stdio_server_def websocket_server_def)

lemma ping_gateway_tools:
  "tools ping_gateway =
     [(''beta__ping'',
       \<lparr>tool_name = ''beta__ping'', tool_description = Some ''[Beta] ping'',
        inputSchema = JObj [], tool_serverId = ''beta'', tool_originalName = ''ping''\<rparr>),
      (''alpha__ping'',
       \<lparr>tool_name = ''alpha__ping'', tool_description = Some ''[Alpha] ping'',
        inputSchema = JObj [], tool_serverId = ''alpha'', tool_originalName = ''ping''\<rparr>)]"
  by (simp add: example_defs gateway_defs)

lemma ping_gateway_resources:
  "resources ping_gateway =
     [(''beta://file:///log'',
       \<lparr>uri = ''beta://file:///log'', resource_name = ''[Beta] log'',
        resource_description = None, mimeType = None, resource_serverId = ''beta'',
        originalUri = ''file:///log''\<rparr>),
      (''alpha://file:///log'',
       \<lparr>uri = ''alpha://file:///log'', resource_name = ''[Alpha] log'',
        resource_description = None, mimeType = None, resource_serverId = ''alpha'',
        originalUri = ''file:///log''\<rparr>)]"
  by (simp add: example_defs gateway_defs)

lemma ping_gateway_prompts:
  "prompts ping_gateway =
     [(''beta__greet'',
       \<lparr>prompt_name = ''beta__greet'', prompt_description = Some ''[Beta] Greets'',
        arguments = None, prompt_serverId = ''beta'', prompt_originalName = ''greet''\<rparr>),
      (''alpha__greet'',
       \<lparr>prompt_name = ''alpha__greet'', prompt_description = Some ''[Alpha] Greets'',
        arguments = None, prompt_serverId = ''alpha'', prompt_originalName = ''greet''\<rparr>)]"
  by (simp add: example_defs gateway_defs)

lemma ping_gateway_clients:
  "clients ping_gateway =
     [(''beta'', UniversalMCPClient (stdio_server ''beta'' ''Beta'' 2 None)),
      (''alpha'', UniversalMCPClient (stdio_server ''alpha'' ''Alpha'' 1 None))]"
  by (simp add: example_defs gateway_defs)


lemma ping_servers:
  "getAllServers (load (mcp_servers_json ping_world)) =
     [websocket_server, stdio_server ''beta'' ''Beta'' 2 None,
      stdio_server ''alpha'' ''Alpha'' 1 None]"
  by (simp add: example_defs gateway_defs)

lemma ping_connects:
  "\<not> connects ping_world websocket_server"
  "connect_error ping_world websocket_server = ''WebSocket transport not yet implemented''"
  "connects ping_world (stdio_server ''beta'' ''Beta'' 2 None)"
  "connects ping_world (stdio_server ''alpha'' ''Alpha'' 1 None)"
  by (simp_all add: example_defs gateway_defs observer_defs)

lemma ping_listed:
  "listed ping_world websocket_server Operation = []"
  "listed ping_world (stdio_server ''beta'' ''Beta'' 2 None) Operation = [''ping'']"
  "listed ping_world (stdio_server ''alpha'' ''Alpha'' 1 None) Operation = [''ping'']"
  by (simp_all add: example_defs gateway_defs observer_defs)

lemma parseInt_examples:
  "parseInt (code_units ''8080'') = Some 8080"
  "parseInt (code_units ''abc'') = None"
  "parseInt (code_units '' 42px'') = Some 42"
  "parseInt (code_units ''-5'') = Some (- 5)"
  "parseInt (0xA0 # code_units ''8082'') = Some 8082"
  "parseInt (0x2003 # 0xFEFF # code_units ''+70000'') = Some 70000"
  by (simp_all add: parseInt_def code_units_def is_space_def is_digit_def digits_value_def
      digit_value_def Let_def)


section \<open>WebSocket transport\<close>

text \<open>
  Claim C6. For a server whose transport is a WebSocket, \<open>connect\<close> rejects with the
  error of the unimplemented transport and leaves the state as it was: the trace has no
  new event, so no credentials were read, no request was sent and no transport was
  connected.
\<close>

theorem connect_websocket_fails_fast:
  "transport serverConfig = WebSocket u h \<Longrightarrow>
   connect env serverConfig s = (Inl ''WebSocket transport not yet implemented'', s)"
  by (simp add: connect_def reject_def)

theorem connect_websocket_fails_fast_witness:
  "transport websocket_server = WebSocket ''ws://localhost:9000'' [] \<and>
   connect (ping_upstream ''gamma'') websocket_server \<lparr>stored = None, trace = []\<rparr>
     = (Inl ''WebSocket transport not yet implemented'', \<lparr>stored = None, trace = []\<rparr>)"
proof -
  have h: "transport websocket_server = WebSocket ''ws://localhost:9000'' []"
    by (simp add: websocket_server_def)
  show ?thesis
    using h connect_websocket_fails_fast [OF h, of "ping_upstream ''gamma''"
        "\<lparr>stored = None, trace = []\<rparr>"]
    by simp
qed

text \<open>
  The other transports do reach the protocol library: a subprocess is connected to.
\<close>

lemma connect_stdio_attempts:
  "transport serverConfig = Stdio command None envir \<Longrightarrow>
   trace (snd (connect env serverConfig s))
     = trace s @ [ClientConnect (StdioClientTransport command [] envir)]"
  by (simp add: connect_def connectStdio_def client_connect_transport_def emit_def
      split: option.splits)


section \<open>Request dispatch\<close>

text \<open>
  Claim C3. A tool call, resource read or prompt request whose identifier is not a key
  of the registry is rejected with the handler's not-found error, and the server object
  (registry, connection map and all) is as before. The handler's rejection is what the
  protocol library turns into the error response to the caller.
\<close>

theorem unknown_entry_rejected:
  "\<not> registered this req \<Longrightarrow>
   handle_request w req this = (Inl (not_found_message req), this)"
  by (cases req) (auto simp: registered_def handle_request_def not_found_message_def)

theorem unknown_entry_rejected_witness:
  "\<not> registered ping_gateway (CallToolRequest ''gamma__ping'' None) \<and>
   handle_request ping_world (CallToolRequest ''gamma__ping'' None) ping_gateway
     = (Inl ''Tool not found: gamma__ping'', ping_gateway) \<and>
   \<not> registered ping_gateway (ReadResourceRequest ''file:///log'') \<and>
   handle_request ping_world (ReadResourceRequest ''file:///log'') ping_gateway
     = (Inl ''Resource not found: file:///log'', ping_gateway) \<and>
   \<not> registered ping_gateway (GetPromptRequest ''greet'' None) \<and>
   handle_request ping_world (GetPromptRequest ''greet'' None) ping_gateway
     = (Inl ''Prompt not found: greet'', ping_gateway)"
proof -
  have t: "\<not> registered ping_gateway (CallToolRequest ''gamma__ping'' None)"
    by (simp add: registered_def ping_gateway_tools)
  have r: "\<not> registered ping_gateway (ReadResourceRequest ''file:///log'')"
    by (simp add: registered_def ping_gateway_resources)
  have p: "\<not> registered ping_gateway (GetPromptRequest ''greet'' None)"
    by (simp add: registered_def ping_gateway_prompts)
  show ?thesis
    using t r p unknown_entry_rejected [OF t, of ping_world]
      unknown_entry_rejected [OF r, of ping_world] unknown_entry_rejected [OF p, of ping_world]
    by (simp add: not_found_message_def)
qed

text \<open>
  Claim C5. When the identifier of a request is a key of the registry and the entry's
  server has a client in the connection map, the handler's outcome is the outcome of
  that client's call with the entry's original identifier, and the server object is as
  before. A tool call passes the caller's arguments on as they are (an object is never
  replaced; absent arguments are sent as the empty object), a prompt request passes them
  on as they are, absent or not.
\<close>

theorem dispatch_forwards_verbatim:
  "(map_of (tools this) toolName = Some tool \<and>
    map_of (clients this) (tool_serverId tool) = Some (UniversalMCPClient toolServer) \<longrightarrow>
      handle_request w (CallToolRequest toolName args) this
        = (callTool_result (upstream w toolServer) (tool_originalName tool)
             (arguments_or_empty args), this)) \<and>
   arguments_or_empty (Some (JObj kvs)) = JObj kvs \<and>
   arguments_or_empty None = JObj [] \<and>
   (map_of (resources this) resourceUri = Some resource \<and>
    map_of (clients this) (resource_serverId resource) = Some (UniversalMCPClient resourceServer) \<longrightarrow>
      handle_request w (ReadResourceRequest resourceUri) this
        = (readResource_result (upstream w resourceServer) (originalUri resource), this)) \<and>
   (map_of (prompts this) promptName = Some prompt \<and>
    map_of (clients this) (prompt_serverId prompt) = Some (UniversalMCPClient promptServer) \<longrightarrow>
      handle_request w (GetPromptRequest promptName promptArgs) this
        = (getPrompt_result (upstream w promptServer) (prompt_originalName prompt) promptArgs,
           this))"
  by (simp add: handle_request_def client_callTool_def client_readResource_def
      client_getPrompt_def arguments_or_empty_def)

theorem dispatch_forwards_verbatim_witness:
  "handle_request ping_world
     (CallToolRequest ''alpha__ping'' (Some (JObj [(''count'', JNum 3)]))) ping_gateway
     = (Inr (JObj [(''server'', JStr ''alpha''), (''tool'', JStr ''ping''),
                   (''arguments'', JObj [(''count'', JNum 3)])]), ping_gateway) \<and>
   handle_request ping_world (ReadResourceRequest ''beta://file:///log'') ping_gateway
     = (Inr (JObj [(''server'', JStr ''beta''), (''uri'', JStr ''file:///log'')]),
        ping_gateway) \<and>
   handle_request ping_world (GetPromptRequest ''beta__greet'' None) ping_gateway
     = (Inr (JObj [(''server'', JStr ''beta''), (''prompt'', JStr ''greet'')]), ping_gateway)"
proof -
  let ?tool = "\<lparr>tool_name = ''alpha__ping'', tool_description = Some ''[Alpha] ping'',
        inputSchema = JObj [], tool_serverId = ''alpha'', tool_originalName = ''ping''\<rparr>"
  let ?resource = "\<lparr>uri = ''beta://file:///log'', resource_name = ''[Beta] log'',
        resource_description = None, mimeType = None, resource_serverId = ''beta'',
        originalUri = ''file:///log''\<rparr>"
  let ?prompt = "\<lparr>prompt_name = ''beta__greet'', prompt_description = Some ''[Beta] Greets'',
        arguments = None, prompt_serverId = ''beta'', prompt_originalName = ''greet''\<rparr>"
  have t: "map_of (tools ping_gateway) ''alpha__ping'' = Some ?tool \<and>
           map_of (clients ping_gateway) (tool_serverId ?tool)
             = Some (UniversalMCPClient (stdio_server ''alpha'' ''Alpha'' 1 None))"
    by (simp add: ping_gateway_tools ping_gateway_clients)
  have r: "map_of (resources ping_gateway) ''beta://file:///log'' = Some ?resource \<and>
           map_of (clients ping_gateway) (resource_serverId ?resource)
             = Some (UniversalMCPClient (stdio_server ''beta'' ''Beta'' 2 None))"
    by (simp add: ping_gateway_resources ping_gateway_clients)
  have p: "map_of (prompts ping_gateway) ''beta__greet'' = Some ?prompt \<and>
           map_of (clients ping_gateway) (prompt_serverId ?prompt)
             = Some (UniversalMCPClient (stdio_server ''beta'' ''Beta'' 2 None))"
    by (simp add: ping_gateway_prompts ping_gateway_clients)
  from dispatch_forwards_verbatim [where this = ping_gateway and w = ping_world
      and toolName = "''alpha__ping''" and tool = ?tool
      and toolServer = "stdio_server ''alpha'' ''Alpha'' 1 None"
      and args = "Some (JObj [(''count'', JNum 3)])" and kvs = "[(''count'', JNum 3)]"
      and resourceUri = "''beta://file:///log''" and resource = ?resource
      and resourceServer = "stdio_server ''beta'' ''Beta'' 2 None"
      and promptName = "''beta__greet''" and prompt = ?prompt
      and promptServer = "stdio_server ''beta'' ''Beta'' 2 None" and promptArgs = None]
    t r p
  show ?thesis
    by (simp add: ping_world_def ping_upstream_def stdio_server_def arguments_or_empty_def
        oauth_env.extend_def upstream_env.fields_def)
qed


section \<open>Aggregation\<close>

subsection \<open>One server\<close>

lemma console_error_fields [simp]:
  "clients (console_error l this) = clients this"
  "tools (console_error l this) = tools this"
  "resources (console_error l this) = resources this"
  "prompts (console_error l this) = prompts this"
  "configManager (console_error l this) = configManager this"
  "port (console_error l this) = port this"
  "console (console_error l this) = console this @ [l]"
  by (simp_all add: console_error_def)

lemma aggregate_tools_fields [simp]:
  "clients (aggregate_tools env s this) = clients this"
  "resources (aggregate_tools env s this) = resources this"
  "prompts (aggregate_tools env s this) = prompts this"
  "configManager (aggregate_tools env s this) = configManager this"
  "port (aggregate_tools env s this) = port this"
  "filter is_failure (console (aggregate_tools env s this)) = filter is_failure (console this)"
  by (simp_all add: aggregate_tools_def is_failure_def split: sum.splits)

lemma aggregate_resources_fields [simp]:
  "clients (aggregate_resources env s this) = clients this"
  "tools (aggregate_resources env s this) = tools this"
  "prompts (aggregate_resources env s this) = prompts this"
  "configManager (aggregate_resources env s this) = configManager this"
  "port (aggregate_resources env s this) = port this"
  "filter is_failure (console (aggregate_resources env s this)) = filter is_failure (console this)"
  by (simp_all add: aggregate_resources_def is_failure_def split: sum.splits)

lemma aggregate_prompts_fields [simp]:
  "clients (aggregate_prompts env s this) = clients this"
  "tools (aggregate_prompts env s this) = tools this"
  "resources (aggregate_prompts env s this) = resources this"
  "configManager (aggregate_prompts env s this) = configManager this"
  "port (aggregate_prompts env s this) = port this"
  "filter is_failure (console (aggregate_prompts env s this)) = filter is_failure (console this)"
  by (simp_all add: aggregate_prompts_def is_failure_def split: sum.splits)

lemma set_tools_Nil [simp]: "set_tools s [] m = m"
  by (simp add: set_tools_def)

lemma set_resources_Nil [simp]: "set_resources s [] m = m"
  by (simp add: set_resources_def)

lemma set_prompts_Nil [simp]: "set_prompts s [] m = m"
  by (simp add: set_prompts_def)

lemma connect_server_tools:
  "tools (connect_server w this s) = set_tools s (listed_tools w s) (tools this)"
  by (simp add: connect_server_def listed_tools_def connects_def aggregate_tools_def
      split: sum.splits)

lemma connect_server_resources:
  "resources (connect_server w this s) = set_resources s (listed_resources w s) (resources this)"
  by (simp add: connect_server_def listed_resources_def connects_def aggregate_resources_def
      split: sum.splits)

lemma connect_server_prompts:
  "prompts (connect_server w this s) = set_prompts s (listed_prompts w s) (prompts this)"
  by (simp add: connect_server_def listed_prompts_def connects_def aggregate_prompts_def
      split: sum.splits)

lemma connect_server_clients:
  "clients (connect_server w this s) =
     (if connects w s then map_set (server_id s) (UniversalMCPClient s) (clients this)
      else clients this)"
  by (simp add: connect_server_def connects_def split: sum.splits)

lemma connect_server_failures:
  "filter is_failure (console (connect_server w this s)) =
     filter is_failure (console this)
     @ (if connects w s then [] else [FailedToConnect (name s) (connect_error w s)])"
  by (simp add: connect_server_def connects_def connect_error_def is_failure_def
      split: sum.splits)

lemma connect_server_frame [simp]:
  "configManager (connect_server w this s) = configManager this"
  "port (connect_server w this s) = port this"
  by (simp_all add: connect_server_def split: sum.splits)

subsection \<open>All servers\<close>

lemma servers_tools_keys:
  "fst ` set (tools (foldl (connect_server w) this ss)) =
     fst ` set (tools this) \<union>
     (\<Union>s\<in>set ss. (\<lambda>t. prefixedName s (tool_name t)) ` set (listed_tools w s))"
  by (induction ss arbitrary: this)
     (auto simp: connect_server_tools set_tools_def foldl_map_set_keys)

lemma servers_tools_entries:
  "(k, e) \<in> set (tools (foldl (connect_server w) this ss)) \<Longrightarrow>
   (k, e) \<in> set (tools this) \<or>
   (\<exists>s\<in>set ss. \<exists>t\<in>set (listed_tools w s).
      k = prefixedName s (tool_name t) \<and> e = aggregated_tool s t)"
proof (induction ss arbitrary: this)
  case Nil
  then show ?case by simp
next
  case (Cons s ss)
  from Cons.IH [OF Cons.prems [simplified]]
  show ?case
    by (auto simp: connect_server_tools set_tools_def dest!: foldl_map_set_entries)
qed

lemma servers_resources_keys:
  "fst ` set (resources (foldl (connect_server w) this ss)) =
     fst ` set (resources this) \<union>
     (\<Union>s\<in>set ss. (\<lambda>r. prefixedUri s (uri r)) ` set (listed_resources w s))"
  by (induction ss arbitrary: this)
     (auto simp: connect_server_resources set_resources_def foldl_map_set_keys)

lemma servers_resources_entries:
  "(k, e) \<in> set (resources (foldl (connect_server w) this ss)) \<Longrightarrow>
   (k, e) \<in> set (resources this) \<or>
   (\<exists>s\<in>set ss. \<exists>r\<in>set (listed_resources w s).
      k = prefixedUri s (uri r) \<and> e = aggregated_resource s r)"
proof (induction ss arbitrary: this)
  case Nil
  then show ?case by simp
next
  case (Cons s ss)
  from Cons.IH [OF Cons.prems [simplified]]
  show ?case
    by (auto simp: connect_server_resources set_resources_def dest!: foldl_map_set_entries)
qed

lemma servers_prompts_keys:
  "fst ` set (prompts (foldl (connect_server w) this ss)) =
     fst ` set (prompts this) \<union>
     (\<Union>s\<in>set ss. (\<lambda>p. prefixedName s (prompt_name p)) ` set (listed_prompts w s))"
  by (induction ss arbitrary: this)
     (auto simp: connect_server_prompts set_prompts_def foldl_map_set_keys)

lemma servers_prompts_entries:
  "(k, e) \<in> set (prompts (foldl (connect_server w) this ss)) \<Longrightarrow>
   (k, e) \<in> set (prompts this) \<or>
   (\<exists>s\<in>set ss. \<exists>p\<in>set (listed_prompts w s).
      k = prefixedName s (prompt_name p) \<and> e = aggregated_prompt s p)"
proof (induction ss arbitrary: this)
  case Nil
  then show ?case by simp
next
  case (Cons s ss)
  from Cons.IH [OF Cons.prems [simplified]]
  show ?case
    by (auto simp: connect_server_prompts set_prompts_def dest!: foldl_map_set_entries)
qed

lemma servers_failures:
  "filter is_failure (console (foldl (connect_server w) this ss)) =
     filter is_failure (console this)
     @ map (\<lambda>s. FailedToConnect (name s) (connect_error w s)) (filter (\<lambda>s. \<not> connects w s) ss)"
  by (induction ss arbitrary: this) (auto simp: connect_server_failures)

lemma servers_clients_keys:
  "fst ` set (clients (foldl (connect_server w) this ss)) =
     fst ` set (clients this) \<union> server_id ` {s \<in> set ss. connects w s}"
  by (induction ss arbitrary: this) (auto simp: connect_server_clients fst_set_map_set)

lemma servers_clients_entries:
  "(k, c) \<in> set (clients (foldl (connect_server w) this ss)) \<Longrightarrow>
   (k, c) \<in> set (clients this) \<or>
   (\<exists>s\<in>set ss. connects w s \<and> k = server_id s \<and> c = UniversalMCPClient s)"
proof (induction ss arbitrary: this)
  case Nil
  then show ?case by simp
next
  case (Cons s ss)
  from Cons.IH [OF Cons.prems [simplified]]
  show ?case
    using set_map_set_subset [of "server_id s" "UniversalMCPClient s" "clients this"]
    by (auto simp: connect_server_clients split: if_splits)
qed

lemma servers_clients_distinct:
  "distinct (map fst (clients this)) \<Longrightarrow>
   distinct (map fst (clients (foldl (connect_server w) this ss)))"
  by (induction ss arbitrary: this) (auto simp: connect_server_clients distinct_map_set)

lemma servers_port [simp]: "port (foldl (connect_server w) this ss) = port this"
  by (induction ss arbitrary: this) simp_all

subsection \<open>The configured servers have distinct ids\<close>

lemma new_Map_entries: "(k, v) \<in> set (new_Map es) \<Longrightarrow> (k, v) \<in> set es"
proof -
  assume "(k, v) \<in> set (new_Map es)"
  then have "(k, v) \<in> set (foldl (\<lambda>m x. map_set (fst x) (snd x) m) [] es)"
    by (simp add: new_Map_def)
  from foldl_map_set_entries [OF this] show ?thesis by auto
qed

lemma new_Map_distinct: "distinct (map fst (new_Map es))"
proof -
  have "distinct (map fst (foldl (\<lambda>m x. map_set (fst x) (snd x) m) [] es))"
    by (rule foldl_map_set_distinct) simp
  then show ?thesis by (simp add: new_Map_def)
qed

lemma load_keys: "(k, v) \<in> set (load cf) \<Longrightarrow> k = server_id v"
  by (cases cf) (auto simp: load_def dest!: new_Map_entries)

lemma load_distinct: "distinct (map fst (load cf))"
  by (cases cf) (simp_all add: load_def new_Map_distinct)

lemma getAllServers_distinct: "distinct (map server_id (getAllServers (load cf)))"
proof -
  have "map server_id (map_values (load cf)) = map fst (load cf)"
    using load_keys [of _ _ cf] by (auto simp: map_values_def)
  then have d: "distinct (map server_id (map_values (load cf)))"
    by (simp add: load_distinct)
  have "mset (map server_id (getAllServers (load cf)))
          = mset (map server_id (map_values (load cf)))"
    by (simp add: getAllServers_def mset_array_sort)
  from mset_eq_imp_distinct_iff [OF this] d show ?thesis by simp
qed

subsection \<open>initialize\<close>

lemma new_fields [simp]:
  "clients (new_AggregatorMCPServer p out) = []"
  "tools (new_AggregatorMCPServer p out) = []"
  "resources (new_AggregatorMCPServer p out) = []"
  "prompts (new_AggregatorMCPServer p out) = []"
  "console (new_AggregatorMCPServer p out) = out"
  "port (new_AggregatorMCPServer p out) = p"
  by (simp_all add: new_AggregatorMCPServer_def)

lemma initialize_registry:
  "tools (initialize w this) =
     tools (foldl (connect_server w)
              (console_error (FoundServers (length (getAllServers (load (mcp_servers_json w)))))
                 ((console_error LoadingConfigurations this)
                    \<lparr>configManager := load (mcp_servers_json w)\<rparr>))
              (getAllServers (load (mcp_servers_json w))))"
  "resources (initialize w this) =
     resources (foldl (connect_server w)
              (console_error (FoundServers (length (getAllServers (load (mcp_servers_json w)))))
                 ((console_error LoadingConfigurations this)
                    \<lparr>configManager := load (mcp_servers_json w)\<rparr>))
              (getAllServers (load (mcp_servers_json w))))"
  "prompts (initialize w this) =
     prompts (foldl (connect_server w)
              (console_error (FoundServers (length (getAllServers (load (mcp_servers_json w)))))
                 ((console_error LoadingConfigurations this)
                    \<lparr>configManager := load (mcp_servers_json w)\<rparr>))
              (getAllServers (load (mcp_servers_json w))))"
  "clients (initialize w this) =
     clients (foldl (connect_server w)
              (console_error (FoundServers (length (getAllServers (load (mcp_servers_json w)))))
                 ((console_error LoadingConfigurations this)
                    \<lparr>configManager := load (mcp_servers_json w)\<rparr>))
              (getAllServers (load (mcp_servers_json w))))"
  "filter is_failure (console (initialize w this)) =
     filter is_failure (console (foldl (connect_server w)
              (console_error (FoundServers (length (getAllServers (load (mcp_servers_json w)))))
                 ((console_error LoadingConfigurations this)
                    \<lparr>configManager := load (mcp_servers_json w)\<rparr>))
              (getAllServers (load (mcp_servers_json w)))))"
  "port (initialize w this) = port this"
  by (cases "getAllServers (load (mcp_servers_json w)) = []";
      simp add: initialize_def Let_def is_failure_def)+

lemma initialize_unconfigured:
  "getAllServers (load (mcp_servers_json w)) = [] \<Longrightarrow>
   initialize w (new_AggregatorMCPServer p out) =
     (new_AggregatorMCPServer p (out @ [LoadingConfigurations, WarningNoServers]))
       \<lparr>configManager := load (mcp_servers_json w)\<rparr>"
  by (simp add: initialize_def Let_def console_error_def new_AggregatorMCPServer_def)

lemma listed_disconnected: "\<not> connects w s \<Longrightarrow> listed w s c = []"
  by (cases c) (simp_all add: listed_def listed_tools_def listed_resources_def listed_prompts_def)

lemma listed_connects: "n \<in> set (listed w s c) \<Longrightarrow> connects w s"
  using listed_disconnected [of w s c] by (cases "connects w s") auto

lemma recorded_keys:
  "recorded (initialize w (new_AggregatorMCPServer p out)) c k \<noteq> None \<longleftrightarrow>
   (\<exists>s\<in>set (getAllServers (load (mcp_servers_json w))).
      \<exists>n\<in>set (listed w s c). k = namespaced c s n)"
proof (cases c)
  case Operation
  have "recorded (initialize w (new_AggregatorMCPServer p out)) Operation k \<noteq> None \<longleftrightarrow>
        k \<in> fst ` set (tools (initialize w (new_AggregatorMCPServer p out)))"
    by (simp add: recorded_def map_of_eq_None_iff)
  also have "\<dots> \<longleftrightarrow> (\<exists>s\<in>set (getAllServers (load (mcp_servers_json w))).
      \<exists>t\<in>set (listed_tools w s). k = prefixedName s (tool_name t))"
    by (simp add: initialize_registry servers_tools_keys) blast
  also have "\<dots> \<longleftrightarrow> (\<exists>s\<in>set (getAllServers (load (mcp_servers_json w))).
      \<exists>n\<in>set (listed w s Operation). k = namespaced Operation s n)"
    by (simp add: listed_def namespaced_def)
  finally show ?thesis by (simp add: Operation)
next
  case Resource
  have "recorded (initialize w (new_AggregatorMCPServer p out)) Resource k \<noteq> None \<longleftrightarrow>
        k \<in> fst ` set (resources (initialize w (new_AggregatorMCPServer p out)))"
    by (simp add: recorded_def map_of_eq_None_iff)
  also have "\<dots> \<longleftrightarrow> (\<exists>s\<in>set (getAllServers (load (mcp_servers_json w))).
      \<exists>r\<in>set (listed_resources w s). k = prefixedUri s (uri r))"
    by (simp add: initialize_registry servers_resources_keys) blast
  also have "\<dots> \<longleftrightarrow> (\<exists>s\<in>set (getAllServers (load (mcp_servers_json w))).
      \<exists>n\<in>set (listed w s Resource). k = namespaced Resource s n)"
    by (simp add: listed_def namespaced_def)
  finally show ?thesis by (simp add: Resource)
next
  case PromptTemplate
  have "recorded (initialize w (new_AggregatorMCPServer p out)) PromptTemplate k \<noteq> None \<longleftrightarrow>
        k \<in> fst ` set (prompts (initialize w (new_AggregatorMCPServer p out)))"
    by (simp add: recorded_def map_of_eq_None_iff)
  also have "\<dots> \<longleftrightarrow> (\<exists>s\<in>set (getAllServers (load (mcp_servers_json w))).
      \<exists>q\<in>set (listed_prompts w s). k = prefixedName s (prompt_name q))"
    by (simp add: initialize_registry servers_prompts_keys) blast
  also have "\<dots> \<longleftrightarrow> (\<exists>s\<in>set (getAllServers (load (mcp_servers_json w))).
      \<exists>n\<in>set (listed w s PromptTemplate). k = namespaced PromptTemplate s n)"
    by (simp add: listed_def namespaced_def)
  finally show ?thesis by (simp add: PromptTemplate)
qed

lemma recorded_entries:
  assumes r: "recorded (initialize w (new_AggregatorMCPServer p out)) c k = Some (pub, sid, orig)"
  shows "pub = k \<and>
         (\<exists>s\<in>set (getAllServers (load (mcp_servers_json w))).
            sid = server_id s \<and> orig \<in> set (listed w s c) \<and> k = namespaced c s orig)"
proof (cases c)
  case Operation
  from r obtain e where e: "map_of (tools (initialize w (new_AggregatorMCPServer p out))) k = Some e"
    and f: "pub = tool_name e" "sid = tool_serverId e" "orig = tool_originalName e"
    by (auto simp: recorded_def Operation)
  from map_of_SomeD [OF e]
  have "(k, e) \<in> set (tools (foldl (connect_server w)
              (console_error (FoundServers (length (getAllServers (load (mcp_servers_json w)))))
                 ((console_error LoadingConfigurations (new_AggregatorMCPServer p out))
                    \<lparr>configManager := load (mcp_servers_json w)\<rparr>))
              (getAllServers (load (mcp_servers_json w)))))"
    by (simp add: initialize_registry)
  from servers_tools_entries [OF this] obtain s t where
    "s \<in> set (getAllServers (load (mcp_servers_json w)))" "t \<in> set (listed_tools w s)"
    "k = prefixedName s (tool_name t)" "e = aggregated_tool s t"
    by auto
  with f show ?thesis
    by (auto simp: listed_def namespaced_def Operation aggregated_tool_def)
next
  case Resource
  from r obtain e where e: "map_of (resources (initialize w (new_AggregatorMCPServer p out))) k = Some e"
    and f: "pub = uri e" "sid = resource_serverId e" "orig = originalUri e"
    by (auto simp: recorded_def Resource)
  from map_of_SomeD [OF e]
  have "(k, e) \<in> set (resources (foldl (connect_server w)
              (console_error (FoundServers (length (getAllServers (load (mcp_servers_json w)))))
                 ((console_error LoadingConfigurations (new_AggregatorMCPServer p out))
                    \<lparr>configManager := load (mcp_servers_json w)\<rparr>))
              (getAllServers (load (mcp_servers_json w)))))"
    by (simp add: initialize_registry)
  from servers_resources_entries [OF this] obtain s t where
    "s \<in> set (getAllServers (load (mcp_servers_json w)))" "t \<in> set (listed_resources w s)"
    "k = prefixedUri s (uri t)" "e = aggregated_resource s t"
    by auto
  with f show ?thesis
    by (auto simp: listed_def namespaced_def Resource aggregated_resource_def)
next
  case PromptTemplate
  from r obtain e where e: "map_of (prompts (initialize w (new_AggregatorMCPServer p out))) k = Some e"
    and f: "pub = prompt_name e" "sid = prompt_serverId e" "orig = prompt_originalName e"
    by (auto simp: recorded_def PromptTemplate)
  from map_of_SomeD [OF e]
  have "(k, e) \<in> set (prompts (foldl (connect_server w)
              (console_error (FoundServers (length (getAllServers (load (mcp_servers_json w)))))
                 ((console_error LoadingConfigurations (new_AggregatorMCPServer p out))
                    \<lparr>configManager := load (mcp_servers_json w)\<rparr>))
              (getAllServers (load (mcp_servers_json w)))))"
    by (simp add: initialize_registry)
  from servers_prompts_entries [OF this] obtain s t where
    "s \<in> set (getAllServers (load (mcp_servers_json w)))" "t \<in> set (listed_prompts w s)"
    "k = prefixedName s (prompt_name t)" "e = aggregated_prompt s t"
    by auto
  with f show ?thesis
    by (auto simp: listed_def namespaced_def PromptTemplate aggregated_prompt_def)
qed

lemma connected_client:
  assumes "a \<in> set (getAllServers (load (mcp_servers_json w)))" and "connects w a"
  shows "map_of (clients (initialize w (new_AggregatorMCPServer p out))) (server_id a)
           = Some (UniversalMCPClient a)"
proof -
  let ?servers = "getAllServers (load (mcp_servers_json w))"
  let ?m = "clients (initialize w (new_AggregatorMCPServer p out))"
  from assms have "server_id a \<in> fst ` set ?m"
    by (simp add: initialize_registry servers_clients_keys)
  from map_of_defined [OF this] obtain c where
    c: "map_of ?m (server_id a) = Some c" "(server_id a, c) \<in> set ?m"
    by blast
  from c(2) have "(server_id a, c) \<in> set (clients (foldl (connect_server w)
              (console_error (FoundServers (length ?servers))
                 ((console_error LoadingConfigurations (new_AggregatorMCPServer p out))
                    \<lparr>configManager := load (mcp_servers_json w)\<rparr>)) ?servers))"
    by (simp add: initialize_registry)
  from servers_clients_entries [OF this]
  obtain s where s: "s \<in> set ?servers" "server_id a = server_id s"
    "c = UniversalMCPClient s"
    by auto
  have inj: "inj_on server_id (set ?servers)"
    using getAllServers_distinct [of "mcp_servers_json w"] by (simp add: distinct_map)
  have "s = a"
    by (rule inj_onD [OF inj s(2) [symmetric] s(1) assms(1)])
  with c(1) s(3) show ?thesis by simp
qed

lemma recorded_own:
  assumes a: "a \<in> set (getAllServers (load (mcp_servers_json w)))"
    and n: "n \<in> set (listed w a c)"
    and unique: "\<forall>s\<in>set (getAllServers (load (mcp_servers_json w))).
                   \<forall>m\<in>set (listed w s c).
                     namespaced c s m = namespaced c a n \<longrightarrow>
                     server_id s = server_id a \<and> m = n"
  shows "recorded (initialize w (new_AggregatorMCPServer p out)) c (namespaced c a n)
           = Some (namespaced c a n, server_id a, n)"
proof -
  let ?r = "recorded (initialize w (new_AggregatorMCPServer p out)) c (namespaced c a n)"
  from a n have "?r \<noteq> None"
    unfolding recorded_keys by blast
  then obtain pub sid orig where r: "?r = Some (pub, sid, orig)"
    by (cases ?r) auto
  from recorded_entries [OF r] obtain s where
    "pub = namespaced c a n" "s \<in> set (getAllServers (load (mcp_servers_json w)))"
    "sid = server_id s" "orig \<in> set (listed w s c)" "namespaced c a n = namespaced c s orig"
    by blast
  with unique have "pub = namespaced c a n \<and> sid = server_id a \<and> orig = n"
    by metis
  then show ?thesis
    by (simp add: r)
qed

lemma namespaced_inject:
  "namespaced c a n = namespaced c b n \<Longrightarrow> server_id a = server_id b"
  by (cases c) (simp_all add: namespaced_def prefixedName_def prefixedUri_def)

lemma clients_length:
  "length (clients (initialize w (new_AggregatorMCPServer p out)))
     = length (filter (connects w) (getAllServers (load (mcp_servers_json w))))"
proof -
  let ?servers = "getAllServers (load (mcp_servers_json w))"
  let ?m = "clients (foldl (connect_server w)
              (console_error (FoundServers (length ?servers))
                 ((console_error LoadingConfigurations (new_AggregatorMCPServer p out))
                    \<lparr>configManager := load (mcp_servers_json w)\<rparr>)) ?servers)"
  have d: "distinct (map fst ?m)"
    by (rule servers_clients_distinct) simp
  have "set (map fst ?m) = set (map server_id (filter (connects w) ?servers))"
    using servers_clients_keys [of w _ ?servers] by auto
  moreover have "distinct (map server_id (filter (connects w) ?servers))"
    using getAllServers_distinct [of "mcp_servers_json w"] by (rule distinct_map_filter)
  ultimately have "length (map fst ?m) = length (map server_id (filter (connects w) ?servers))"
    using d by (metis distinct_card)
  then show ?thesis
    by (simp add: initialize_registry)
qed

lemma map_of_foldl_map_set:
  "map_of (foldl (\<lambda>m x. map_set (key x) (val x) m) m xs) =
     map_of m ++ map_of (rev (map (\<lambda>x. (key x, val x)) xs))"
  by (induction xs arbitrary: m) (simp_all add: map_of_map_set)

lemma servers_tools_map_of:
  "map_of (tools (foldl (connect_server w) this ss)) =
     map_of (tools this) ++
     map_of (rev (concat (map (\<lambda>s. map (\<lambda>t. (prefixedName s (tool_name t), aggregated_tool s t))
                                    (listed_tools w s)) ss)))"
  by (induction ss arbitrary: this)
     (simp_all add: connect_server_tools set_tools_def map_of_foldl_map_set)

lemma servers_resources_map_of:
  "map_of (resources (foldl (connect_server w) this ss)) =
     map_of (resources this) ++
     map_of (rev (concat (map (\<lambda>s. map (\<lambda>r. (prefixedUri s (uri r), aggregated_resource s r))
                                    (listed_resources w s)) ss)))"
  by (induction ss arbitrary: this)
     (simp_all add: connect_server_resources set_resources_def map_of_foldl_map_set)

lemma servers_prompts_map_of:
  "map_of (prompts (foldl (connect_server w) this ss)) =
     map_of (prompts this) ++
     map_of (rev (concat (map (\<lambda>s. map (\<lambda>q. (prefixedName s (prompt_name q), aggregated_prompt s q))
                                    (listed_prompts w s)) ss)))"
  by (induction ss arbitrary: this)
     (simp_all add: connect_server_prompts set_prompts_def map_of_foldl_map_set)

lemma map_option_map_of:
  "map_option f (map_of xs k) = map_of (map (\<lambda>x. (fst x, f (snd x))) xs) k"
  by (induction xs) auto

lemma recorded_registrations:
  "recorded (initialize w (new_AggregatorMCPServer p out)) c k =
     map_of (rev (registrations w (getAllServers (load (mcp_servers_json w))) c)) k"
proof (cases c)
  case Operation
  show ?thesis
    by (simp add: Operation recorded_def initialize_registry servers_tools_map_of
        console_error_def map_option_map_of registrations_def listed_def namespaced_def
        rev_map [symmetric] map_concat comp_def aggregated_tool_def)
next
  case Resource
  show ?thesis
    by (simp add: Resource recorded_def initialize_registry servers_resources_map_of
        console_error_def map_option_map_of registrations_def listed_def namespaced_def
        rev_map [symmetric] map_concat comp_def aggregated_resource_def)
next
  case PromptTemplate
  show ?thesis
    by (simp add: PromptTemplate recorded_def initialize_registry servers_prompts_map_of
        console_error_def map_option_map_of registrations_def listed_def namespaced_def
        rev_map [symmetric] map_concat comp_def aggregated_prompt_def)
qed

lemma initialize_summary:
  "getAllServers (load (mcp_servers_json w)) \<noteq> [] \<Longrightarrow>
   last (console (initialize w this)) =
     Initialized (length (tools (initialize w this))) (length (resources (initialize w this)))
       (length (prompts (initialize w this)))"
  by (simp add: initialize_def Let_def console_error_def)

text \<open>
  Claim C2, as the code has it. Let \<open>servers\<close> be the configured servers and
  \<open>gateway\<close> the server object after \<open>initialize\<close> on a new one. Then the console
  holds one failure line for each server whose client did not connect, in the order of
  the pass, and no other; the connection map holds one client for each server that
  connected, so their number and the number of failures add up to the number of servers.
  The registry records under a public identifier what the last registration of the pass
  under that identifier set: a later registration replaces an earlier one. So it holds an
  entry under a public identifier exactly when some server lists an original identifier
  that is namespaced to it; every entry is the one of a server that connected, with that
  server's id and the original identifier; and a capability that a server lists is
  recorded under its public identifier with that server's id and its original identifier
  whenever no other listed identifier is namespaced to the same public identifier, which
  makes the registry the union of what the connected servers list when no two
  registrations meet. With no server configured the gateway is the new one with the
  warning on its console; with some server configured, whether or not any connects, the
  pass runs to its closing line, which counts the registry.
\<close>

theorem initialize_partial_failure:
  assumes servers: "servers = getAllServers (load (mcp_servers_json w))"
    and gateway: "gateway = initialize w (new_AggregatorMCPServer p out)"
  shows "filter is_failure (console gateway) =
           filter is_failure out @
           map (\<lambda>s. FailedToConnect (name s) (connect_error w s))
             (filter (\<lambda>s. \<not> connects w s) servers) \<and>
         length (clients gateway) + length (filter (\<lambda>s. \<not> connects w s) servers)
           = length servers \<and>
         (\<forall>s\<in>set servers. connects w s \<longrightarrow>
            map_of (clients gateway) (server_id s) = Some (UniversalMCPClient s)) \<and>
         (\<forall>c k. recorded gateway c k = map_of (rev (registrations w servers c)) k) \<and>
         (\<forall>c k. recorded gateway c k \<noteq> None \<longleftrightarrow>
            (\<exists>s\<in>set servers. \<exists>n\<in>set (listed w s c). k = namespaced c s n)) \<and>
         (\<forall>c k pub sid orig. recorded gateway c k = Some (pub, sid, orig) \<longrightarrow>
            pub = k \<and>
            (\<exists>s\<in>set servers. connects w s \<and> sid = server_id s \<and>
               orig \<in> set (listed w s c) \<and> k = namespaced c s orig)) \<and>
         (\<forall>c. \<forall>s\<in>set servers. \<forall>n\<in>set (listed w s c).
            (\<forall>s'\<in>set servers. \<forall>m\<in>set (listed w s' c).
               namespaced c s' m = namespaced c s n \<longrightarrow> server_id s' = server_id s \<and> m = n)
            \<longrightarrow> recorded gateway c (namespaced c s n) = Some (namespaced c s n, server_id s, n)) \<and>
         (servers = [] \<longrightarrow>
            gateway =
              (new_AggregatorMCPServer p (out @ [LoadingConfigurations, WarningNoServers]))
                \<lparr>configManager := load (mcp_servers_json w)\<rparr>) \<and>
         (servers \<noteq> [] \<longrightarrow>
            last (console gateway) =
              Initialized (length (tools gateway)) (length (resources gateway))
                (length (prompts gateway)))"
proof (intro conjI)
  show "filter is_failure (console gateway) =
           filter is_failure out @
           map (\<lambda>s. FailedToConnect (name s) (connect_error w s))
             (filter (\<lambda>s. \<not> connects w s) servers)"
    by (simp add: gateway servers initialize_registry servers_failures is_failure_def)
next
  show "length (clients gateway) + length (filter (\<lambda>s. \<not> connects w s) servers)
           = length servers"
    unfolding gateway servers clients_length by (rule sum_length_filter_compl)
next
  show "\<forall>s\<in>set servers. connects w s \<longrightarrow>
            map_of (clients gateway) (server_id s) = Some (UniversalMCPClient s)"
    unfolding gateway servers by (intro ballI impI connected_client)
next
  show "\<forall>c k. recorded gateway c k = map_of (rev (registrations w servers c)) k"
    unfolding gateway servers by (intro allI recorded_registrations)
next
  show "\<forall>c k. recorded gateway c k \<noteq> None \<longleftrightarrow>
            (\<exists>s\<in>set servers. \<exists>n\<in>set (listed w s c). k = namespaced c s n)"
    unfolding gateway servers by (intro allI recorded_keys)
next
  show "\<forall>c k pub sid orig. recorded gateway c k = Some (pub, sid, orig) \<longrightarrow>
            pub = k \<and>
            (\<exists>s\<in>set servers. connects w s \<and> sid = server_id s \<and>
               orig \<in> set (listed w s c) \<and> k = namespaced c s orig)"
  proof (intro allI impI)
    fix c k pub sid orig
    assume "recorded gateway c k = Some (pub, sid, orig)"
    from recorded_entries [OF this [unfolded gateway]]
    show "pub = k \<and>
            (\<exists>s\<in>set servers. connects w s \<and> sid = server_id s \<and>
               orig \<in> set (listed w s c) \<and> k = namespaced c s orig)"
      unfolding servers using listed_connects by blast
  qed
next
  show "\<forall>c. \<forall>s\<in>set servers. \<forall>n\<in>set (listed w s c).
            (\<forall>s'\<in>set servers. \<forall>m\<in>set (listed w s' c).
               namespaced c s' m = namespaced c s n \<longrightarrow> server_id s' = server_id s \<and> m = n)
            \<longrightarrow> recorded gateway c (namespaced c s n) = Some (namespaced c s n, server_id s, n)"
    unfolding gateway servers
  proof (intro allI ballI impI)
    fix c s n
    assume s: "s \<in> set (getAllServers (load (mcp_servers_json w)))"
      and n: "n \<in> set (listed w s c)"
      and u: "\<forall>s'\<in>set (getAllServers (load (mcp_servers_json w))). \<forall>m\<in>set (listed w s' c).
                namespaced c s' m = namespaced c s n \<longrightarrow> server_id s' = server_id s \<and> m = n"
    show "recorded (initialize w (new_AggregatorMCPServer p out)) c (namespaced c s n)
            = Some (namespaced c s n, server_id s, n)"
      by (rule recorded_own [OF s n u])
  qed
next
  show "servers = [] \<longrightarrow>
            gateway =
              (new_AggregatorMCPServer p (out @ [LoadingConfigurations, WarningNoServers]))
                \<lparr>configManager := load (mcp_servers_json w)\<rparr>"
    by (simp add: gateway servers initialize_def Let_def console_error_def
        new_AggregatorMCPServer_def)
next
  show "servers \<noteq> [] \<longrightarrow>
            last (console gateway) =
              Initialized (length (tools gateway)) (length (resources gateway))
                (length (prompts gateway))"
    unfolding gateway servers by (intro impI initialize_summary)
qed

theorem initialize_partial_failure_witness:
  "filter is_failure (console ping_gateway)
     = [FailedToConnect ''Gamma'' ''WebSocket transport not yet implemented''] \<and>
   length (getAllServers (load (mcp_servers_json ping_world))) = 3 \<and>
   length (clients ping_gateway) = 2 \<and>
   map_of (clients ping_gateway) ''beta''
     = Some (UniversalMCPClient (stdio_server ''beta'' ''Beta'' 2 None)) \<and>
   recorded ping_gateway Operation ''beta__ping'' = Some (''beta__ping'', ''beta'', ''ping'') \<and>
   recorded ping_gateway Operation ''alpha__ping'' = Some (''alpha__ping'', ''alpha'', ''ping'') \<and>
   recorded ping_gateway Operation ''gamma__ping'' = None \<and>
   last (console ping_gateway) = Initialized 2 2 2 \<and>
   recorded (initialize colliding_world (new_AggregatorMCPServer 3000 [])) Operation ''a__b__ping''
     = Some (''a__b__ping'', ''a'', ''b__ping'') \<and>
   getAllServers (load (mcp_servers_json malformed_world)) = [] \<and>
   initialize malformed_world (new_AggregatorMCPServer 3000 [])
     = (new_AggregatorMCPServer 3000 [LoadingConfigurations, WarningNoServers])
         \<lparr>configManager := load (mcp_servers_json malformed_world)\<rparr>"
proof -
  let ?beta = "stdio_server ''beta'' ''Beta'' 2 None"
  note ping = initialize_partial_failure [OF refl ping_gateway_def]
  note failures = ping [THEN conjunct1]
  note count = ping [THEN conjunct2, THEN conjunct1]
  note client = ping [THEN conjunct2, THEN conjunct2, THEN conjunct1, rule_format]
  note last_set = ping [THEN conjunct2, THEN conjunct2, THEN conjunct2, THEN conjunct1,
      rule_format]
  note keys = ping [THEN conjunct2, THEN conjunct2, THEN conjunct2, THEN conjunct2,
      THEN conjunct1, rule_format]
  note own = ping [THEN conjunct2, THEN conjunct2, THEN conjunct2, THEN conjunct2,
      THEN conjunct2, THEN conjunct2, THEN conjunct1, THEN spec, THEN bspec, THEN bspec,
      THEN mp]
  note summary = ping [THEN conjunct2, THEN conjunct2, THEN conjunct2, THEN conjunct2,
      THEN conjunct2, THEN conjunct2, THEN conjunct2, THEN conjunct2, rule_format]
  note colliding = initialize_partial_failure [OF refl refl, of colliding_world 3000 "[]",
      THEN conjunct2, THEN conjunct2, THEN conjunct2, THEN conjunct1, rule_format]
  have none: "getAllServers (load (mcp_servers_json malformed_world)) = []"
    by (simp add: malformed_world_def load_def getAllServers_def map_values_def)
  have beta: "?beta \<in> set (getAllServers (load (mcp_servers_json ping_world)))"
    by (simp add: ping_servers)
  from failures have "filter is_failure (console ping_gateway)
     = [FailedToConnect ''Gamma'' ''WebSocket transport not yet implemented'']"
    by (simp add: ping_servers ping_connects example_server_fields)
  moreover from count have "length (clients ping_gateway) = 2"
    by (simp add: ping_servers ping_connects)
  moreover from client [OF beta]
  have "map_of (clients ping_gateway) ''beta'' = Some (UniversalMCPClient ?beta)"
    by (simp add: ping_connects example_server_fields)
  moreover have "recorded ping_gateway Operation ''beta__ping''
                   = Some (''beta__ping'', ''beta'', ''ping'')"
  proof -
    have n: "''ping'' \<in> set (listed ping_world ?beta Operation)"
      by (simp add: ping_listed)
    have u: "\<forall>s'\<in>set (getAllServers (load (mcp_servers_json ping_world))).
               \<forall>m\<in>set (listed ping_world s' Operation).
                 namespaced Operation s' m = namespaced Operation ?beta ''ping'' \<longrightarrow>
                 server_id s' = server_id ?beta \<and> m = ''ping''"
      by (simp add: ping_servers ping_listed namespaced_def prefixedName_def stdio_server_def)
    from own [OF beta n u] show ?thesis
      by (simp add: namespaced_def prefixedName_def example_server_fields)
  qed
  moreover from last_set [of Operation "''alpha__ping''"]
  have "recorded ping_gateway Operation ''alpha__ping''
          = Some (''alpha__ping'', ''alpha'', ''ping'')"
    by (simp add: registrations_def ping_servers ping_listed namespaced_def prefixedName_def
        example_server_fields)
  moreover from keys [of Operation "''gamma__ping''"]
  have "recorded ping_gateway Operation ''gamma__ping'' = None"
    by (simp add: ping_servers ping_listed namespaced_def prefixedName_def
        example_server_fields del: not_None_eq)
  moreover from summary
  have "last (console ping_gateway) = Initialized 2 2 2"
    by (simp add: ping_servers ping_gateway_tools ping_gateway_resources ping_gateway_prompts)
  moreover from colliding [of Operation "''a__b__ping''"]
  have "recorded (initialize colliding_world (new_AggregatorMCPServer 3000 [])) Operation
          ''a__b__ping'' = Some (''a__b__ping'', ''a'', ''b__ping'')"
    by (simp add: registrations_def example_defs gateway_defs observer_defs)
  moreover from initialize_partial_failure [OF refl refl, of malformed_world 3000 "[]"] none
  have "initialize malformed_world (new_AggregatorMCPServer 3000 [])
     = (new_AggregatorMCPServer 3000 [LoadingConfigurations, WarningNoServers])
         \<lparr>configManager := load (mcp_servers_json malformed_world)\<rparr>"
    by simp
  ultimately show ?thesis
    using none by (simp add: ping_servers)
qed

text \<open>
  The registry is not always the union of what the connected servers list: \<open>a\<close> and
  \<open>a__b\<close> both connect, \<open>a__b\<close> lists \<open>ping\<close>, and the registry holds two
  operations, both of \<open>a\<close>; the registration of \<open>b__ping\<close> of \<open>a\<close> has replaced
  the one of \<open>ping\<close> of \<open>a__b\<close>.
\<close>

theorem initialize_union_counterexample:
  "getAllServers (load (mcp_servers_json colliding_world))
     = [stdio_server ''a__b'' ''AB'' 2 None, stdio_server ''a'' ''A'' 1 None] \<and>
   connects colliding_world (stdio_server ''a'' ''A'' 1 None) \<and>
   connects colliding_world (stdio_server ''a__b'' ''AB'' 2 None) \<and>
   listed colliding_world (stdio_server ''a'' ''A'' 1 None) Operation = [''ping'', ''b__ping''] \<and>
   listed colliding_world (stdio_server ''a__b'' ''AB'' 2 None) Operation = [''ping''] \<and>
   map fst (tools (initialize colliding_world (new_AggregatorMCPServer 3000 [])))
     = [''a__b__ping'', ''a__ping''] \<and>
   recorded (initialize colliding_world (new_AggregatorMCPServer 3000 [])) Operation ''a__b__ping''
     = Some (''a__b__ping'', ''a'', ''b__ping'') \<and>
   recorded (initialize colliding_world (new_AggregatorMCPServer 3000 [])) Operation ''a__ping''
     = Some (''a__ping'', ''a'', ''ping'')"
  by (simp add: example_defs gateway_defs observer_defs)

text \<open>
  Claim C1, as the code has it. Let \<open>a\<close> and \<open>b\<close> be two configured servers with
  distinct ids that both list the original identifier \<open>n\<close> (of an operation, a
  resource or a prompt), and let no listed identifier of any server be namespaced to the
  public identifier of \<open>n\<close> at \<open>a\<close> or at \<open>b\<close> other than \<open>n\<close> itself at a server
  of that id. Then the two public identifiers differ, the registry records under each
  the entry with that public identifier, the id of its own server and \<open>n\<close>, and the
  connection map holds the client of \<open>a\<close> under the id of \<open>a\<close> and the client of \<open>b\<close>
  under the id of \<open>b\<close>.
\<close>

theorem namespaced_entries_resolve:
  assumes servers: "servers = getAllServers (load (mcp_servers_json w))"
    and gateway: "gateway = initialize w (new_AggregatorMCPServer p out)"
    and a: "a \<in> set servers" and b: "b \<in> set servers"
    and ids: "server_id a \<noteq> server_id b"
    and na: "n \<in> set (listed w a c)" and nb: "n \<in> set (listed w b c)"
    and unique_a: "\<forall>s\<in>set servers. \<forall>m\<in>set (listed w s c).
                     namespaced c s m = namespaced c a n \<longrightarrow> server_id s = server_id a \<and> m = n"
    and unique_b: "\<forall>s\<in>set servers. \<forall>m\<in>set (listed w s c).
                     namespaced c s m = namespaced c b n \<longrightarrow> server_id s = server_id b \<and> m = n"
  shows "namespaced c a n \<noteq> namespaced c b n \<and>
         recorded gateway c (namespaced c a n) = Some (namespaced c a n, server_id a, n) \<and>
         recorded gateway c (namespaced c b n) = Some (namespaced c b n, server_id b, n) \<and>
         map_of (clients gateway) (server_id a) = Some (UniversalMCPClient a) \<and>
         map_of (clients gateway) (server_id b) = Some (UniversalMCPClient b)"
proof (intro conjI)
  show "namespaced c a n \<noteq> namespaced c b n"
    using ids namespaced_inject by blast
  show "recorded gateway c (namespaced c a n) = Some (namespaced c a n, server_id a, n)"
    unfolding gateway using a na unique_a unfolding servers by (rule recorded_own)
  show "recorded gateway c (namespaced c b n) = Some (namespaced c b n, server_id b, n)"
    unfolding gateway using b nb unique_b unfolding servers by (rule recorded_own)
  show "map_of (clients gateway) (server_id a) = Some (UniversalMCPClient a)"
    unfolding gateway using a [unfolded servers] listed_connects [OF na]
    by (rule connected_client)
  show "map_of (clients gateway) (server_id b) = Some (UniversalMCPClient b)"
    unfolding gateway using b [unfolded servers] listed_connects [OF nb]
    by (rule connected_client)
qed

theorem namespaced_entries_resolve_witness:
  "stdio_server ''alpha'' ''Alpha'' 1 None \<in> set (getAllServers (load (mcp_servers_json ping_world))) \<and>
   stdio_server ''beta'' ''Beta'' 2 None \<in> set (getAllServers (load (mcp_servers_json ping_world))) \<and>
   ''ping'' \<in> set (listed ping_world (stdio_server ''alpha'' ''Alpha'' 1 None) Operation) \<and>
   ''ping'' \<in> set (listed ping_world (stdio_server ''beta'' ''Beta'' 2 None) Operation) \<and>
   recorded ping_gateway Operation ''alpha__ping'' = Some (''alpha__ping'', ''alpha'', ''ping'') \<and>
   recorded ping_gateway Operation ''beta__ping'' = Some (''beta__ping'', ''beta'', ''ping'') \<and>
   map_of (clients ping_gateway) ''alpha''
     = Some (UniversalMCPClient (stdio_server ''alpha'' ''Alpha'' 1 None)) \<and>
   map_of (clients ping_gateway) ''beta''
     = Some (UniversalMCPClient (stdio_server ''beta'' ''Beta'' 2 None))"
proof -
  let ?alpha = "stdio_server ''alpha'' ''Alpha'' 1 None"
  let ?beta = "stdio_server ''beta'' ''Beta'' 2 None"
  let ?servers = "getAllServers (load (mcp_servers_json ping_world))"
  have a: "?alpha \<in> set ?servers" and b: "?beta \<in> set ?servers"
    by (simp_all add: ping_servers)
  have ids: "server_id ?alpha \<noteq> server_id ?beta"
    by (simp add: stdio_server_def)
  have na: "''ping'' \<in> set (listed ping_world ?alpha Operation)"
    and nb: "''ping'' \<in> set (listed ping_world ?beta Operation)"
    by (simp_all add: ping_listed)
  have ua: "\<forall>s\<in>set ?servers. \<forall>m\<in>set (listed ping_world s Operation).
              namespaced Operation s m = namespaced Operation ?alpha ''ping'' \<longrightarrow>
              server_id s = server_id ?alpha \<and> m = ''ping''"
    by (simp add: ping_servers ping_listed namespaced_def prefixedName_def stdio_server_def)
  have ub: "\<forall>s\<in>set ?servers. \<forall>m\<in>set (listed ping_world s Operation).
              namespaced Operation s m = namespaced Operation ?beta ''ping'' \<longrightarrow>
              server_id s = server_id ?beta \<and> m = ''ping''"
    by (simp add: ping_servers ping_listed namespaced_def prefixedName_def stdio_server_def)
  from namespaced_entries_resolve [OF refl ping_gateway_def a b ids na nb ua ub] a b na nb
  show ?thesis
    by (simp add: namespaced_def prefixedName_def stdio_server_def)
qed

text \<open>
  Without the condition on other identifiers the statement fails: the servers \<open>a\<close> and
  \<open>a__b\<close> both list \<open>ping\<close>, and the entry under \<open>a__b__ping\<close> is the one of the
  tool \<open>b__ping\<close> of \<open>a\<close>, which was set after it.
\<close>

theorem namespaced_collision_counterexample:
  "stdio_server ''a'' ''A'' 1 None \<in> set (getAllServers (load (mcp_servers_json colliding_world))) \<and>
   stdio_server ''a__b'' ''AB'' 2 None \<in> set (getAllServers (load (mcp_servers_json colliding_world))) \<and>
   ''ping'' \<in> set (listed colliding_world (stdio_server ''a'' ''A'' 1 None) Operation) \<and>
   ''ping'' \<in> set (listed colliding_world (stdio_server ''a__b'' ''AB'' 2 None) Operation) \<and>
   namespaced Operation (stdio_server ''a__b'' ''AB'' 2 None) ''ping'' = ''a__b__ping'' \<and>
   recorded (initialize colliding_world (new_AggregatorMCPServer 3000 [])) Operation ''a__b__ping''
     = Some (''a__b__ping'', ''a'', ''b__ping'')"
  by (simp add: example_defs gateway_defs observer_defs)


section \<open>Process exit\<close>











section \<open>Token refresh and authentication\<close>

subsection \<open>Counting events\<close>

lemmas async_defs = await_def try_catch_def resolve_def reject_def Date_now_def

lemma count_emit [simp]:
  "count_events P (emit ev s) = count_events P s + (if P ev then 1 else 0)"
  by (simp add: count_events_def emit_def)

lemma count_stored [simp]: "count_events P (s\<lparr>stored := x\<rparr>) = count_events P s"
  by (simp add: count_events_def)

lemma length_trace_emit [simp]: "length (trace (emit ev s)) = Suc (length (trace s))"
  by (simp add: emit_def)

lemma is_refresh_simps [simp]:
  "\<not> is_refresh ReadCredentials" "\<not> is_refresh (WriteCredentials c)"
  "\<not> is_refresh (FetchMetadata u)" "\<not> is_refresh (PostRegistration u)"
  "\<not> is_refresh (OpenBrowser u ps)"
  "\<not> is_refresh (PostToken ep (exchange_body code cid csecret v))"
  "is_refresh (PostToken ep (refresh_body rt cid csecret))"
  by (simp_all add: is_refresh_def exchange_body_def refresh_body_def)

lemma is_token_request_simps [simp]:
  "\<not> is_token_request ReadCredentials" "\<not> is_token_request (WriteCredentials c)"
  "\<not> is_token_request (FetchMetadata u)" "\<not> is_token_request (PostRegistration u)"
  "\<not> is_token_request (OpenBrowser u ps)" "is_token_request (PostToken ep body)"
  by (simp_all add: is_token_request_def)

subsection \<open>Functions that add no event of a kind\<close>

lemma silentD: "silent P m \<Longrightarrow> count_events P (snd (m s)) = count_events P s"
  by (simp add: silent_def)

lemma silent_resolve: "silent P (resolve a)"
  by (simp add: silent_def resolve_def)

lemma silent_reject: "silent P (reject e)"
  by (simp add: silent_def reject_def)

lemma silent_Date_now: "silent P (Date_now env)"
  by (simp add: silent_def Date_now_def)

lemma silent_pure: "silent P (\<lambda>s. (r, s))"
  by (simp add: silent_def)

lemma silent_await:
  assumes "silent P m" and "\<And>a. silent P (f a)"
  shows "silent P (await m f)"
  unfolding silent_def
proof
  fix s
  show "count_events P (snd (await m f s)) = count_events P s"
  proof (cases "m s")
    case (Pair r s1)
    with silentD [OF assms(1), of s] have c: "count_events P s1 = count_events P s" by simp
    show ?thesis
    proof (cases r)
      case (Inl e)
      with Pair c show ?thesis by (simp add: await_def)
    next
      case (Inr a)
      with Pair c silentD [OF assms(2), of a s1] show ?thesis by (simp add: await_def)
    qed
  qed
qed

lemma silent_try_catch:
  assumes "silent P m" and "\<And>e. silent P (h e)"
  shows "silent P (try_catch m h)"
  unfolding silent_def
proof
  fix s
  show "count_events P (snd (try_catch m h s)) = count_events P s"
  proof (cases "m s")
    case (Pair r s1)
    with silentD [OF assms(1), of s] have c: "count_events P s1 = count_events P s" by simp
    show ?thesis
    proof (cases r)
      case (Inl e)
      with Pair c silentD [OF assms(2), of e s1] show ?thesis by (simp add: try_catch_def)
    next
      case (Inr a)
      with Pair c show ?thesis by (simp add: try_catch_def)
    qed
  qed
qed

lemma silent_if: "silent P m1 \<Longrightarrow> silent P m2 \<Longrightarrow> silent P (if b then m1 else m2)"
  by simp

lemma silent_case_option:
  "silent P m1 \<Longrightarrow> (\<And>y. silent P (m2 y)) \<Longrightarrow> silent P (case x of None \<Rightarrow> m1 | Some y \<Rightarrow> m2 y)"
  by (cases x) simp_all

lemma silent_loadCredentials: "\<not> P ReadCredentials \<Longrightarrow> silent P (loadCredentials env)"
  by (simp add: silent_def loadCredentials_def split: option.splits)

lemma silent_getStoredCredentials:
  "\<not> P ReadCredentials \<Longrightarrow> silent P (getStoredCredentials env)"
  by (simp add: getStoredCredentials_def silent_loadCredentials)

lemma silent_saveCredentials:
  "\<not> P (WriteCredentials c) \<Longrightarrow> silent P (saveCredentials env c)"
  by (simp add: silent_def saveCredentials_def split: option.splits)

lemma silent_discoverMetadata:
  "\<not> P (FetchMetadata u) \<Longrightarrow> silent P (discoverMetadata env u)"
  by (simp add: silent_def discoverMetadata_def split: sum.splits)

lemma silent_registerClient:
  "\<not> P (PostRegistration u) \<Longrightarrow> silent P (registerClient env u)"
  by (simp add: silent_def registerClient_def split: sum.splits)

lemma silent_fetch_token:
  "\<not> P (PostToken ep body) \<Longrightarrow> silent P (fetch_token env ep body)"
  by (simp add: silent_def fetch_token_def)

lemma silent_startCallbackServer:
  "\<not> P (OpenBrowser ep ps) \<Longrightarrow> silent P (startCallbackServer env st ep ps)"
  by (simp add: silent_def startCallbackServer_def Let_def split: option.splits)

lemmas silent_intros =
  silent_await silent_try_catch silent_if silent_case_option silent_resolve silent_reject
  silent_Date_now silent_pure

lemma silent_exchangeCodeForToken:
  "\<not> P (PostToken ep (exchange_body code cid csecret v)) \<Longrightarrow>
   silent P (exchangeCodeForToken env ep code cid csecret v)"
  unfolding exchangeCodeForToken_def
  by (intro silent_intros silent_fetch_token)

lemma silent_authorize_refresh: "silent is_refresh (authorize env aep tep cid csecret)"
  unfolding silent_def
proof
  fix s
  have "silent is_refresh
          (await (startCallbackServer env st aep ps)
             (\<lambda>authCode.
                await (exchangeCodeForToken env tep authCode cid csecret v)
                  (\<lambda>tokenResponse.
                     await (Date_now env)
                       (\<lambda>now.
                          let credentials = mk tokenResponse now
                          in await (saveCredentials env credentials)
                               (\<lambda>_. resolve credentials)))))" for st ps v mk
    unfolding Let_def
    by (intro silent_intros silent_startCallbackServer silent_exchangeCodeForToken
        silent_saveCredentials) simp_all
  from silentD [OF this]
  show "count_events is_refresh (snd (authorize env aep tep cid csecret s))
          = count_events is_refresh s"
    by (simp add: authorize_def Let_def)
qed

lemma silent_performFullAuth_refresh: "silent is_refresh (performFullAuth env)"
  unfolding performFullAuth_def
  by (intro silent_intros silent_discoverMetadata silent_getStoredCredentials
      silent_registerClient silent_authorize_refresh) simp_all

subsection \<open>No function removes an event\<close>

lemma growingD: "growing P m \<Longrightarrow> m s = (r, s') \<Longrightarrow> count_events P s \<le> count_events P s'"
  by (auto simp: growing_def dest: spec [of _ s])

lemma growing_resolve: "growing P (resolve a)"
  by (simp add: growing_def resolve_def)

lemma growing_reject: "growing P (reject e)"
  by (simp add: growing_def reject_def)

lemma growing_Date_now: "growing P (Date_now env)"
  by (simp add: growing_def Date_now_def)

lemma growing_pure: "growing P (\<lambda>s. (r, s))"
  by (simp add: growing_def)

lemma growing_await:
  assumes "growing P m" and "\<And>a. growing P (f a)"
  shows "growing P (await m f)"
  unfolding growing_def
proof
  fix s
  show "count_events P s \<le> count_events P (snd (await m f s))"
  proof (cases "m s")
    case (Pair r s1)
    from growingD [OF assms(1) Pair] have c: "count_events P s \<le> count_events P s1" .
    show ?thesis
    proof (cases r)
      case (Inl e)
      with Pair c show ?thesis by (simp add: await_def)
    next
      case (Inr a)
      from growingD [OF assms(2), of a s1 "fst (f a s1)" "snd (f a s1)"]
      have "count_events P s1 \<le> count_events P (snd (f a s1))" by simp
      with Inr Pair c show ?thesis by (simp add: await_def)
    qed
  qed
qed

lemma growing_try_catch:
  assumes "growing P m" and "\<And>e. growing P (h e)"
  shows "growing P (try_catch m h)"
  unfolding growing_def
proof
  fix s
  show "count_events P s \<le> count_events P (snd (try_catch m h s))"
  proof (cases "m s")
    case (Pair r s1)
    from growingD [OF assms(1) Pair] have c: "count_events P s \<le> count_events P s1" .
    show ?thesis
    proof (cases r)
      case (Inl e)
      from growingD [OF assms(2), of e s1 "fst (h e s1)" "snd (h e s1)"]
      have "count_events P s1 \<le> count_events P (snd (h e s1))" by simp
      with Inl Pair c show ?thesis by (simp add: try_catch_def)
    next
      case (Inr a)
      with Pair c show ?thesis by (simp add: try_catch_def)
    qed
  qed
qed

lemma growing_if: "growing P m1 \<Longrightarrow> growing P m2 \<Longrightarrow> growing P (if b then m1 else m2)"
  by simp

lemma growing_case_option:
  "growing P m1 \<Longrightarrow> (\<And>y. growing P (m2 y)) \<Longrightarrow>
   growing P (case x of None \<Rightarrow> m1 | Some y \<Rightarrow> m2 y)"
  by (cases x) simp_all

lemma growing_getStoredCredentials: "growing P (getStoredCredentials env)"
  by (simp add: growing_def getStoredCredentials_def loadCredentials_def split: option.splits)

lemma growing_saveCredentials: "growing P (saveCredentials env c)"
  by (simp add: growing_def saveCredentials_def split: option.splits)

lemma growing_discoverMetadata: "growing P (discoverMetadata env u)"
  by (simp add: growing_def discoverMetadata_def split: sum.splits)

lemma growing_registerClient: "growing P (registerClient env u)"
  by (simp add: growing_def registerClient_def split: sum.splits)

lemma growing_fetch_token: "growing P (fetch_token env ep body)"
  by (simp add: growing_def fetch_token_def)

lemma growing_startCallbackServer: "growing P (startCallbackServer env st ep ps)"
  by (simp add: growing_def startCallbackServer_def Let_def split: option.splits)

lemmas growing_intros =
  growing_await growing_try_catch growing_if growing_case_option growing_resolve
  growing_reject growing_Date_now growing_pure growing_getStoredCredentials
  growing_saveCredentials growing_discoverMetadata growing_registerClient
  growing_fetch_token growing_startCallbackServer

subsection \<open>A successful authorization has asked the token endpoint\<close>

lemma await_Inr:
  assumes "await m f s = (Inr b, s')"
  obtains a s1 where "m s = (Inr a, s1)" and "f a s1 = (Inr b, s')"
  using assms by (auto simp: await_def split: prod.splits sum.splits)

lemma exchangeCodeForToken_success:
  assumes "exchangeCodeForToken env tep code cid csecret v s = (Inr t, s')"
  shows "count_events is_token_request s < count_events is_token_request s'"
proof -
  from assms obtain response s1 where
    f: "fetch_token env tep (exchange_body code cid csecret v) s = (Inr response, s1)"
    and k: "(if \<not> ok response
             then reject (''Token exchange failed: '' @ statusText response @ '' - ''
                            @ body_text response)
             else (\<lambda>s. (body_json response, s))) s1 = (Inr t, s')"
    unfolding exchangeCodeForToken_def by (rule await_Inr)
  from f have "count_events is_token_request s1 = count_events is_token_request s + 1"
    by (auto simp: fetch_token_def)
  moreover from k have "s' = s1"
    by (auto simp: reject_def split: if_splits)
  ultimately show ?thesis by simp
qed

lemma authorize_success:
  assumes "authorize env aep tep cid csecret s = (Inr c, s')"
  shows "count_events is_token_request s < count_events is_token_request s'"
proof -
  let ?v = "random_base64url env (length (trace s))"
  let ?st = "random_hex env (length (trace s))"
  let ?callback = "startCallbackServer env ?st aep
              [(''client_id'', cid), (''redirect_uri'', redirectUri),
               (''response_type'', ''code''), (''state'', ?st),
               (''code_challenge'', sha256_base64url env ?v),
               (''code_challenge_method'', ''S256''), (''scope'', ''read write'')]"
  let ?save = "\<lambda>tokenResponse.
               await (Date_now env)
                 (\<lambda>now.
                    await (saveCredentials env
                             \<lparr>clientId = cid, clientSecret = csecret,
                              accessToken = access_token tokenResponse,
                              refreshToken = refresh_token tokenResponse,
                              tokenType = token_type tokenResponse,
                              expiresAt = expiry now (expires_in tokenResponse),
                              registrationResponse = None\<rparr>)
                      (\<lambda>_. resolve
                             \<lparr>clientId = cid, clientSecret = csecret,
                              accessToken = access_token tokenResponse,
                              refreshToken = refresh_token tokenResponse,
                              tokenType = token_type tokenResponse,
                              expiresAt = expiry now (expires_in tokenResponse),
                              registrationResponse = None\<rparr>))"
  from assms have run:
    "await ?callback
       (\<lambda>authCode. await (exchangeCodeForToken env tep authCode cid csecret (Some ?v)) ?save)
       s = (Inr c, s')"
    by (simp add: authorize_def Let_def split: if_splits)
  from run obtain code s1 where
    cb: "?callback s = (Inr code, s1)"
    and rest1: "await (exchangeCodeForToken env tep code cid csecret (Some ?v)) ?save s1
                  = (Inr c, s')"
    by (rule await_Inr)
  from rest1 obtain t s2 where
    ex: "exchangeCodeForToken env tep code cid csecret (Some ?v) s1 = (Inr t, s2)"
    and rest2: "?save t s2 = (Inr c, s')"
    by (rule await_Inr)
  have save: "growing is_token_request (?save t)"
    by (intro growing_intros)
  have "count_events is_token_request s \<le> count_events is_token_request s1"
    by (rule growingD [OF growing_startCallbackServer cb])
  also have "\<dots> < count_events is_token_request s2"
    by (rule exchangeCodeForToken_success [OF ex])
  also have "\<dots> \<le> count_events is_token_request s'"
    by (rule growingD [OF save rest2])
  finally show ?thesis .
qed

lemma performFullAuth_success:
  assumes "performFullAuth env s = (Inr c, s')"
  shows "count_events is_token_request s < count_events is_token_request s'"
proof -
  let ?registration = "\<lambda>metadata storedCreds.
                 (case (case storedCreds of None \<Rightarrow> None
                        | Some c \<Rightarrow> registrationResponse c) of
                    Some reg \<Rightarrow> resolve reg
                  | None \<Rightarrow>
                      (case registration_endpoint metadata of
                         Some ep \<Rightarrow>
                           (if ep \<noteq> [] then registerClient env ep
                            else reject
                              ''No registration endpoint found and no stored client credentials'')
                       | None \<Rightarrow> reject
                           ''No registration endpoint found and no stored client credentials''))"
  let ?finish = "\<lambda>registration credentials.
                   await (getStoredCredentials env)
                     (\<lambda>_. resolve (credentials\<lparr>registrationResponse := Some registration\<rparr>))"
  let ?authorization = "\<lambda>metadata registration.
                    await (authorize env (authorization_endpoint metadata)
                             (token_endpoint metadata) (client_id registration)
                             (client_secret registration))
                      (?finish registration)"
  from assms obtain metadata s1 where
    d: "discoverMetadata env mcpServerUrl s = (Inr metadata, s1)"
    and r1: "await (getStoredCredentials env)
               (\<lambda>storedCreds. await (?registration metadata storedCreds)
                                 (?authorization metadata)) s1 = (Inr c, s')"
    unfolding performFullAuth_def by (rule await_Inr)
  from r1 obtain storedCreds s2 where
    g: "getStoredCredentials env s1 = (Inr storedCreds, s2)"
    and r2: "await (?registration metadata storedCreds) (?authorization metadata) s2
               = (Inr c, s')"
    by (rule await_Inr)
  from r2 obtain registration s3 where
    reg: "?registration metadata storedCreds s2 = (Inr registration, s3)"
    and r3: "?authorization metadata registration s3 = (Inr c, s')"
    by (rule await_Inr)
  from r3 obtain credentials s4 where
    a: "authorize env (authorization_endpoint metadata) (token_endpoint metadata)
          (client_id registration) (client_secret registration) s3 = (Inr credentials, s4)"
    and r4: "?finish registration credentials s4 = (Inr c, s')"
    by (rule await_Inr)
  have gr: "growing is_token_request (?registration metadata storedCreds)"
    by (intro growing_intros)
  have gf: "growing is_token_request (?finish registration credentials)"
    by (intro growing_intros)
  have "count_events is_token_request s \<le> count_events is_token_request s1"
    by (rule growingD [OF growing_discoverMetadata d])
  also have "\<dots> \<le> count_events is_token_request s2"
    by (rule growingD [OF growing_getStoredCredentials g])
  also have "\<dots> \<le> count_events is_token_request s3"
    by (rule growingD [OF gr reg])
  also have "\<dots> < count_events is_token_request s4"
    by (rule authorize_success [OF a])
  also have "\<dots> \<le> count_events is_token_request s'"
    by (rule growingD [OF gf r4])
  finally show ?thesis .
qed

subsection \<open>refreshAccessToken\<close>

lemma refreshAccessToken_count:
  "count_events is_refresh (snd (refreshAccessToken env ep rt cid csecret s))
     = count_events is_refresh s + 1"
proof -
  let ?k = "\<lambda>response.
          if \<not> ok response
          then reject (''Token refresh failed: '' @ statusText response @ '' - ''
                         @ body_text response)
          else
            await (\<lambda>s. (body_json response, s))
              (\<lambda>tokenData.
                 await (Date_now env)
                   (\<lambda>now.
                      let credentials =
                            \<lparr>clientId = cid, clientSecret = csecret,
                             accessToken = access_token tokenData,
                             refreshToken =
                               (if truthy_str (refresh_token tokenData)
                                then refresh_token tokenData else Some rt),
                             tokenType = token_type tokenData,
                             expiresAt = expiry now (expires_in tokenData),
                             registrationResponse = None\<rparr>
                      in await (saveCredentials env credentials)
                           (\<lambda>_. resolve credentials)))"
  have k: "silent is_refresh (?k response)" for response
    unfolding Let_def by (intro silent_intros silent_saveCredentials) simp_all
  show ?thesis
  proof (cases "post_token env (length (trace s)) ep (refresh_body rt cid csecret)")
    case (Inl e)
    then show ?thesis
      by (simp add: refreshAccessToken_def await_def fetch_token_def)
  next
    case (Inr response)
    then have "refreshAccessToken env ep rt cid csecret s
                 = ?k response (emit (PostToken ep (refresh_body rt cid csecret)) s)"
      by (simp add: refreshAccessToken_def await_def fetch_token_def)
    with silentD [OF k, of response "emit (PostToken ep (refresh_body rt cid csecret)) s"]
    show ?thesis by simp
  qed
qed

lemma refreshAccessToken_asks:
  "count_events is_token_request s
     < count_events is_token_request (snd (refreshAccessToken env ep rt cid csecret s))"
proof -
  let ?k = "\<lambda>response.
          if \<not> ok response
          then reject (''Token refresh failed: '' @ statusText response @ '' - ''
                         @ body_text response)
          else
            await (\<lambda>s. (body_json response, s))
              (\<lambda>tokenData.
                 await (Date_now env)
                   (\<lambda>now.
                      let credentials =
                            \<lparr>clientId = cid, clientSecret = csecret,
                             accessToken = access_token tokenData,
                             refreshToken =
                               (if truthy_str (refresh_token tokenData)
                                then refresh_token tokenData else Some rt),
                             tokenType = token_type tokenData,
                             expiresAt = expiry now (expires_in tokenData),
                             registrationResponse = None\<rparr>
                      in await (saveCredentials env credentials)
                           (\<lambda>_. resolve credentials)))"
  have k: "growing is_token_request (?k response)" for response
    unfolding Let_def by (intro growing_intros)
  show ?thesis
  proof (cases "post_token env (length (trace s)) ep (refresh_body rt cid csecret)")
    case (Inl e)
    then show ?thesis
      by (simp add: refreshAccessToken_def await_def fetch_token_def)
  next
    case (Inr response)
    then have "refreshAccessToken env ep rt cid csecret s
                 = ?k response (emit (PostToken ep (refresh_body rt cid csecret)) s)"
      by (simp add: refreshAccessToken_def await_def fetch_token_def)
    moreover from k [of response]
    have "count_events is_token_request (emit (PostToken ep (refresh_body rt cid csecret)) s)
            \<le> count_events is_token_request
                 (snd (?k response (emit (PostToken ep (refresh_body rt cid csecret)) s)))"
      unfolding growing_def by blast
    ultimately show ?thesis by simp
  qed
qed

text \<open>
  Claim C7, as the code has it. Whenever \<open>refreshAccessToken\<close> resolves, the token
  endpoint answered the refresh request with a success status and a JSON body, the
  credential returned is the one written to the storage and now stored, and it carries
  the response's refresh token when the response has a non-empty one and the refresh
  token passed to the call when the response has none; its \<open>expiresAt\<close> is the time
  read after the response plus 1000 times \<open>expires_in\<close> (milliseconds) when the response
  has a non-zero \<open>expires_in\<close>, and absent when the response has none.
\<close>

theorem refreshAccessToken_credential:
  assumes run: "refreshAccessToken env tokenEndpoint refreshTok cid csecret s = (Inr credentials, s')"
  shows "\<exists>response tokenData.
           post_token env (length (trace s)) tokenEndpoint (refresh_body refreshTok cid csecret)
             = Inr response \<and>
           ok response \<and> body_json response = Inr tokenData \<and>
           trace s' = trace s @ [PostToken tokenEndpoint (refresh_body refreshTok cid csecret),
                                 WriteCredentials credentials] \<and>
           stored s' = Some credentials \<and>
           (\<forall>t. refresh_token tokenData = Some t \<and> t \<noteq> [] \<longrightarrow>
                  refreshToken credentials = Some t) \<and>
           (refresh_token tokenData = None \<longrightarrow> refreshToken credentials = Some refreshTok) \<and>
           (\<forall>n. expires_in tokenData = Some n \<and> n \<noteq> 0 \<longrightarrow>
                  expiresAt credentials
                    = Some (date_now env (Suc (length (trace s))) + n * 1000)) \<and>
           (expires_in tokenData = None \<longrightarrow> expiresAt credentials = None)"
proof -
  let ?body = "refresh_body refreshTok cid csecret"
  obtain response where r: "post_token env (length (trace s)) tokenEndpoint ?body = Inr response"
    using run
    by (cases "post_token env (length (trace s)) tokenEndpoint ?body")
       (auto simp: refreshAccessToken_def fetch_token_def async_defs emit_def)
  have k: "ok response"
    using run r by (auto simp: refreshAccessToken_def fetch_token_def async_defs emit_def split: if_splits)
  obtain tokenData where t: "body_json response = Inr tokenData"
    using run r k
    by (cases "body_json response")
       (auto simp: refreshAccessToken_def fetch_token_def async_defs emit_def)
  have w: "write_error env (Suc (length (trace s))) = None"
    using run r k t
    by (cases "write_error env (Suc (length (trace s)))")
       (auto simp: refreshAccessToken_def fetch_token_def async_defs emit_def saveCredentials_def Let_def)
  have c: "credentials =
             \<lparr>clientId = cid, clientSecret = csecret, accessToken = access_token tokenData,
              refreshToken = (if truthy_str (refresh_token tokenData)
                              then refresh_token tokenData else Some refreshTok),
              tokenType = token_type tokenData,
              expiresAt = expiry (date_now env (Suc (length (trace s)))) (expires_in tokenData),
              registrationResponse = None\<rparr>"
    and s': "s' = s\<lparr>trace := trace s @ [PostToken tokenEndpoint ?body, WriteCredentials credentials],
                     stored := Some credentials\<rparr>"
    using run r k t w
    by (auto simp: refreshAccessToken_def fetch_token_def async_defs emit_def saveCredentials_def Let_def)
  have "trace s' = trace s @ [PostToken tokenEndpoint ?body, WriteCredentials credentials]"
    and "stored s' = Some credentials"
    by (simp_all add: s')
  moreover have "\<forall>t. refresh_token tokenData = Some t \<and> t \<noteq> [] \<longrightarrow>
                  refreshToken credentials = Some t"
    and "refresh_token tokenData = None \<longrightarrow> refreshToken credentials = Some refreshTok"
    by (simp_all add: c truthy_str_def)
  moreover have "\<forall>n. expires_in tokenData = Some n \<and> n \<noteq> 0 \<longrightarrow>
                  expiresAt credentials
                    = Some (date_now env (Suc (length (trace s))) + n * 1000)"
    and "expires_in tokenData = None \<longrightarrow> expiresAt credentials = None"
    by (simp_all add: c expiry_def)
  ultimately show ?thesis
    using r k t by - (rule exI [of _ response], rule exI [of _ tokenData], simp)
qed

theorem refreshAccessToken_credential_witness:
  "refreshAccessToken (token_oauth rotated_token) ''https://as/token'' ''old'' ''client'' None
     \<lparr>stored = None, trace = []\<rparr>
     = (Inr \<lparr>clientId = ''client'', clientSecret = None, accessToken = ''new-access'',
             refreshToken = Some ''rotated'', tokenType = ''Bearer'',
             expiresAt = Some 3601000, registrationResponse = None\<rparr>,
        \<lparr>stored = Some \<lparr>clientId = ''client'', clientSecret = None,
                         accessToken = ''new-access'', refreshToken = Some ''rotated'',
                         tokenType = ''Bearer'', expiresAt = Some 3601000,
                         registrationResponse = None\<rparr>,
         trace = [PostToken ''https://as/token'' (refresh_body ''old'' ''client'' None),
                  WriteCredentials \<lparr>clientId = ''client'', clientSecret = None,
                         accessToken = ''new-access'', refreshToken = Some ''rotated'',
                         tokenType = ''Bearer'', expiresAt = Some 3601000,
                         registrationResponse = None\<rparr>]\<rparr>) \<and>
   (\<exists>credentials s'.
      refreshAccessToken (token_oauth bare_token) ''https://as/token'' ''old'' ''client'' None
        \<lparr>stored = None, trace = []\<rparr> = (Inr credentials, s') \<and>
      refreshToken credentials = Some ''old'' \<and> expiresAt credentials = None \<and>
      stored s' = Some credentials)"
proof -
  let ?s = "\<lparr>stored = None, trace = []\<rparr>"
  let ?c = "\<lparr>clientId = ''client'', clientSecret = None, accessToken = ''new-access'',
             refreshToken = Some ''rotated'', tokenType = ''Bearer'',
             expiresAt = Some 3601000, registrationResponse = None\<rparr>"
  let ?b = "\<lparr>clientId = ''client'', clientSecret = None, accessToken = ''new-access'',
             refreshToken = Some ''old'', tokenType = ''Bearer'',
             expiresAt = None, registrationResponse = None\<rparr>"
  have run1: "refreshAccessToken (token_oauth rotated_token) ''https://as/token'' ''old''
                ''client'' None ?s
              = (Inr ?c, \<lparr>stored = Some ?c,
                   trace = [PostToken ''https://as/token'' (refresh_body ''old'' ''client'' None),
                            WriteCredentials ?c]\<rparr>)"
    by (simp add: oauth_defs oauth_example_defs)
  have run2: "refreshAccessToken (token_oauth bare_token) ''https://as/token'' ''old''
                ''client'' None ?s
              = (Inr ?b, \<lparr>stored = Some ?b,
                   trace = [PostToken ''https://as/token'' (refresh_body ''old'' ''client'' None),
                            WriteCredentials ?b]\<rparr>)"
    by (simp add: oauth_defs oauth_example_defs)
  from refreshAccessToken_credential [OF run2]
  have "refreshToken ?b = Some ''old'' \<and> expiresAt ?b = None \<and>
        stored \<lparr>stored = Some ?b,
                 trace = [PostToken ''https://as/token'' (refresh_body ''old'' ''client'' None),
                          WriteCredentials ?b]\<rparr> = Some ?b"
    by (auto simp: oauth_example_defs)
  with run1 run2 show ?thesis
    by blast
qed

text \<open>
  A response with \<open>expires_in: 0\<close> and an empty \<open>refresh_token\<close> gives a credential
  with no \<open>expiresAt\<close> and the refresh token of the call.
\<close>

theorem refreshAccessToken_zero_counterexample:
  "fst (refreshAccessToken (token_oauth zero_token) ''https://as/token'' ''old'' ''client'' None
          \<lparr>stored = None, trace = []\<rparr>)
     = Inr \<lparr>clientId = ''client'', clientSecret = None, accessToken = ''new-access'',
            refreshToken = Some ''old'', tokenType = ''Bearer'', expiresAt = None,
            registrationResponse = None\<rparr> \<and>
   refresh_token zero_token = Some [] \<and> expires_in zero_token = Some 0"
  by (simp add: oauth_defs oauth_example_defs)

subsection \<open>authenticate\<close>

lemma authenticate_stored:
  assumes "stored s = Some credentials" and "read_error env (length (trace s)) = None"
  shows "authenticate env s =
           (if expired env credentials (emit ReadCredentials s)
            then (case refreshToken credentials of
                    Some rt \<Rightarrow>
                      if rt \<noteq> []
                      then try_catch
                             (await (discoverMetadata env mcpServerUrl)
                                (\<lambda>metadata.
                                   refreshAccessToken env (token_endpoint metadata) rt
                                     (clientId credentials) (clientSecret credentials)))
                             (\<lambda>error. performFullAuth env) (emit ReadCredentials s)
                      else performFullAuth env (emit ReadCredentials s)
                  | None \<Rightarrow> performFullAuth env (emit ReadCredentials s))
            else (Inr credentials, emit ReadCredentials s))"
  using assms
  by (simp add: authenticate_def await_def getStoredCredentials_def loadCredentials_def
      resolve_def)

text \<open>
  Claim C4, as the code has it. Let the storage hold a credential and the read of it
  succeed. If the credential is not expired (its \<open>expiresAt\<close> is absent, zero, or not
  before now), \<open>authenticate\<close> returns it after that read alone. If it is expired and
  has no refresh token (or an empty one), \<open>authenticate\<close> is one run of the full
  authorization, with no refresh request. If it is expired and has a refresh token:
  when the metadata discovery fails, no refresh request is sent and \<open>authenticate\<close>
  is one run of the full authorization; when the discovery succeeds, exactly one
  refresh request is sent, and \<open>authenticate\<close> returns the refreshed credential if
  the refresh resolves and is one run of the full authorization, from the state the
  failed refresh left, if it rejects. In every expired case a credential is returned
  only after a request to the token endpoint in this run.
\<close>

theorem authenticate_stored_credential:
  assumes st: "stored s = Some credentials"
    and rd: "read_error env (length (trace s)) = None"
  shows
    "(\<not> expired env credentials (emit ReadCredentials s) \<longrightarrow>
        authenticate env s = (Inr credentials, emit ReadCredentials s)) \<and>
     (expired env credentials (emit ReadCredentials s) \<and>
      \<not> truthy_str (refreshToken credentials) \<longrightarrow>
        authenticate env s = performFullAuth env (emit ReadCredentials s) \<and>
        count_events is_refresh (snd (authenticate env s)) = count_events is_refresh s) \<and>
     (expired env credentials (emit ReadCredentials s) \<and>
      refreshToken credentials = Some rt \<and> rt \<noteq> [] \<longrightarrow>
        (\<forall>e s2. discoverMetadata env mcpServerUrl (emit ReadCredentials s) = (Inl e, s2) \<longrightarrow>
           authenticate env s = performFullAuth env s2 \<and>
           count_events is_refresh (snd (authenticate env s)) = count_events is_refresh s) \<and>
        (\<forall>metadata s2.
           discoverMetadata env mcpServerUrl (emit ReadCredentials s) = (Inr metadata, s2) \<longrightarrow>
           count_events is_refresh (snd (authenticate env s)) = count_events is_refresh s + 1 \<and>
           (\<forall>refreshed s3.
              refreshAccessToken env (token_endpoint metadata) rt (clientId credentials)
                (clientSecret credentials) s2 = (Inr refreshed, s3) \<longrightarrow>
              authenticate env s = (Inr refreshed, s3)) \<and>
           (\<forall>e s3.
              refreshAccessToken env (token_endpoint metadata) rt (clientId credentials)
                (clientSecret credentials) s2 = (Inl e, s3) \<longrightarrow>
              authenticate env s = performFullAuth env s3))) \<and>
     (expired env credentials (emit ReadCredentials s) \<longrightarrow>
        (\<forall>c' s'. authenticate env s = (Inr c', s') \<longrightarrow>
           count_events is_token_request s < count_events is_token_request s'))"
proof -
  let ?s1 = "emit ReadCredentials s"
  note unfold = authenticate_stored [OF st rd]
  have s1_refresh: "count_events is_refresh ?s1 = count_events is_refresh s"
    and s1_token: "count_events is_token_request ?s1 = count_events is_token_request s"
    by simp_all
  have full_refresh: "count_events is_refresh (snd (performFullAuth env t))
                        = count_events is_refresh t" for t
    by (rule silentD [OF silent_performFullAuth_refresh])
  have discover_refresh: "count_events is_refresh s2 = count_events is_refresh ?s1"
    if "discoverMetadata env mcpServerUrl ?s1 = (r, s2)" for r s2
    using silentD [OF silent_discoverMetadata, of is_refresh mcpServerUrl env ?s1] that
    by simp
  have discover_token: "count_events is_token_request ?s1 \<le> count_events is_token_request s2"
    if "discoverMetadata env mcpServerUrl ?s1 = (r, s2)" for r s2
    by (rule growingD [OF growing_discoverMetadata that])
  have part1: "\<not> expired env credentials ?s1 \<longrightarrow> authenticate env s = (Inr credentials, ?s1)"
    by (simp add: unfold)
  have part2: "expired env credentials ?s1 \<and> \<not> truthy_str (refreshToken credentials) \<longrightarrow>
        authenticate env s = performFullAuth env ?s1 \<and>
        count_events is_refresh (snd (authenticate env s)) = count_events is_refresh s"
  proof
    assume h: "expired env credentials ?s1 \<and> \<not> truthy_str (refreshToken credentials)"
    then have "authenticate env s = performFullAuth env ?s1"
      by (auto simp: unfold truthy_str_def split: option.splits)
    then show "authenticate env s = performFullAuth env ?s1 \<and>
        count_events is_refresh (snd (authenticate env s)) = count_events is_refresh s"
      by (simp add: full_refresh)
  qed
  have part3: "expired env credentials ?s1 \<and> refreshToken credentials = Some rt \<and> rt \<noteq> [] \<longrightarrow>
        (\<forall>e s2. discoverMetadata env mcpServerUrl ?s1 = (Inl e, s2) \<longrightarrow>
           authenticate env s = performFullAuth env s2 \<and>
           count_events is_refresh (snd (authenticate env s)) = count_events is_refresh s) \<and>
        (\<forall>metadata s2.
           discoverMetadata env mcpServerUrl ?s1 = (Inr metadata, s2) \<longrightarrow>
           count_events is_refresh (snd (authenticate env s)) = count_events is_refresh s + 1 \<and>
           (\<forall>refreshed s3.
              refreshAccessToken env (token_endpoint metadata) rt (clientId credentials)
                (clientSecret credentials) s2 = (Inr refreshed, s3) \<longrightarrow>
              authenticate env s = (Inr refreshed, s3)) \<and>
           (\<forall>e s3.
              refreshAccessToken env (token_endpoint metadata) rt (clientId credentials)
                (clientSecret credentials) s2 = (Inl e, s3) \<longrightarrow>
              authenticate env s = performFullAuth env s3))"
  proof (intro impI conjI allI)
    fix e s2
    assume h: "expired env credentials ?s1 \<and> refreshToken credentials = Some rt \<and> rt \<noteq> []"
      and d: "discoverMetadata env mcpServerUrl ?s1 = (Inl e, s2)"
    from h d show a: "authenticate env s = performFullAuth env s2"
      by (simp add: unfold try_catch_def await_def)
    show "count_events is_refresh (snd (authenticate env s)) = count_events is_refresh s"
      using discover_refresh [OF d] by (simp add: a full_refresh)
  next
    fix metadata s2
    assume h: "expired env credentials ?s1 \<and> refreshToken credentials = Some rt \<and> rt \<noteq> []"
      and d: "discoverMetadata env mcpServerUrl ?s1 = (Inr metadata, s2)"
    let ?refresh = "refreshAccessToken env (token_endpoint metadata) rt (clientId credentials)
                      (clientSecret credentials) s2"
    from h d have a: "authenticate env s =
        (case ?refresh of (Inl e, s3) \<Rightarrow> performFullAuth env s3
         | (Inr refreshed, s3) \<Rightarrow> (Inr refreshed, s3))"
      by (simp add: unfold try_catch_def await_def)
    have c: "count_events is_refresh (snd ?refresh) = count_events is_refresh s + 1"
      using discover_refresh [OF d] by (simp add: refreshAccessToken_count)
    show "count_events is_refresh (snd (authenticate env s)) = count_events is_refresh s + 1"
    proof (cases ?refresh)
      case (Pair r s3)
      with c show ?thesis
        by (cases r) (simp_all add: a full_refresh)
    qed
    {
      fix refreshed s3
      assume "?refresh = (Inr refreshed, s3)"
      then show "authenticate env s = (Inr refreshed, s3)"
        by (simp add: a)
    next
      fix e s3
      assume "?refresh = (Inl e, s3)"
      then show "authenticate env s = performFullAuth env s3"
        by (simp add: a)
    }
  qed
  have part4: "expired env credentials ?s1 \<longrightarrow>
        (\<forall>c' s'. authenticate env s = (Inr c', s') \<longrightarrow>
           count_events is_token_request s < count_events is_token_request s')"
  proof (intro impI allI)
    fix c' s'
    assume h: "expired env credentials ?s1" and run: "authenticate env s = (Inr c', s')"
    have full: "count_events is_token_request s < count_events is_token_request s'"
      if "performFullAuth env t = (Inr c', s')"
        and "count_events is_token_request s \<le> count_events is_token_request t" for t
      using performFullAuth_success [OF that(1)] that(2) by simp
    show "count_events is_token_request s < count_events is_token_request s'"
    proof (cases "truthy_str (refreshToken credentials)")
      case False
      with h run have "performFullAuth env ?s1 = (Inr c', s')"
        by (auto simp: unfold truthy_str_def split: option.splits)
      then show ?thesis by (rule full) simp
    next
      case True
      then obtain rt' where rt': "refreshToken credentials = Some rt'" "rt' \<noteq> []"
        by (auto simp: truthy_str_def split: option.splits)
      obtain r s2 where d: "discoverMetadata env mcpServerUrl ?s1 = (r, s2)"
        by (cases "discoverMetadata env mcpServerUrl ?s1")
      from discover_token [OF d]
      have le2: "count_events is_token_request s \<le> count_events is_token_request s2"
        by simp
      show ?thesis
      proof (cases r)
        case (Inl e)
        with h run rt' d have "performFullAuth env s2 = (Inr c', s')"
          by (simp add: unfold try_catch_def await_def)
        then show ?thesis using le2 by (rule full)
      next
        case (Inr metadata)
        let ?refresh = "refreshAccessToken env (token_endpoint metadata) rt'
                          (clientId credentials) (clientSecret credentials) s2"
        obtain r3 s3 where f: "?refresh = (r3, s3)"
          by (cases ?refresh)
        show ?thesis
        proof (cases r3)
          case (Inl e)
          have "growing is_token_request
                  (refreshAccessToken env (token_endpoint metadata) rt'
                     (clientId credentials) (clientSecret credentials))"
            unfolding refreshAccessToken_def Let_def by (intro growing_intros)
          from growingD [OF this f] le2
          have le3: "count_events is_token_request s \<le> count_events is_token_request s3"
            by simp
          from Inl Inr h run rt' d f have "performFullAuth env s3 = (Inr c', s')"
            by (simp add: unfold try_catch_def await_def)
          then show ?thesis using le3 by (rule full)
        next
          case (Inr refreshed)
          with \<open>r = Inr metadata\<close> h run rt' d f have "s' = s3"
            by (simp add: unfold try_catch_def await_def)
          moreover from refreshAccessToken_asks [of s2 env "token_endpoint metadata" rt'
              "clientId credentials" "clientSecret credentials"] f
          have "count_events is_token_request s2 < count_events is_token_request s3"
            by simp
          ultimately show ?thesis using le2 by simp
        qed
      qed
    qed
  qed
  from part1 part2 part3 part4 show ?thesis
    by (intro conjI)
qed

theorem authenticate_stored_credential_witness:
  "authenticate (token_oauth rotated_token)
     \<lparr>stored = Some (stored_credential (Some 500) (Some ''old'')), trace = []\<rparr>
     = (Inr \<lparr>clientId = ''client'', clientSecret = None, accessToken = ''new-access'',
             refreshToken = Some ''rotated'', tokenType = ''Bearer'',
             expiresAt = Some 3601000, registrationResponse = None\<rparr>,
        \<lparr>stored = Some \<lparr>clientId = ''client'', clientSecret = None,
                         accessToken = ''new-access'', refreshToken = Some ''rotated'',
                         tokenType = ''Bearer'', expiresAt = Some 3601000,
                         registrationResponse = None\<rparr>,
         trace = [ReadCredentials, FetchMetadata mcpServerUrl,
                  PostToken ''https://as/token'' (refresh_body ''old'' ''client'' None),
                  WriteCredentials \<lparr>clientId = ''client'', clientSecret = None,
                         accessToken = ''new-access'', refreshToken = Some ''rotated'',
                         tokenType = ''Bearer'', expiresAt = Some 3601000,
                         registrationResponse = None\<rparr>]\<rparr>) \<and>
   count_events is_refresh
     (snd (authenticate (token_oauth rotated_token)
             \<lparr>stored = Some (stored_credential (Some 500) (Some ''old'')), trace = []\<rparr>)) = 1 \<and>
   authenticate (token_oauth rotated_token)
     \<lparr>stored = Some (stored_credential (Some 5000) (Some ''old'')), trace = []\<rparr>
     = (Inr (stored_credential (Some 5000) (Some ''old'')),
        \<lparr>stored = Some (stored_credential (Some 5000) (Some ''old'')),
         trace = [ReadCredentials]\<rparr>) \<and>
   authenticate (token_oauth rotated_token)
     \<lparr>stored = Some (stored_credential (Some 500) None), trace = []\<rparr>
     = performFullAuth (token_oauth rotated_token)
         \<lparr>stored = Some (stored_credential (Some 500) None), trace = [ReadCredentials]\<rparr>"
proof -
  let ?env = "token_oauth rotated_token"
  let ?c = "\<lparr>clientId = ''client'', clientSecret = None, accessToken = ''new-access'',
             refreshToken = Some ''rotated'', tokenType = ''Bearer'',
             expiresAt = Some 3601000, registrationResponse = None\<rparr>"
  let ?old = "stored_credential (Some 500) (Some ''old'')"
  let ?s = "\<lparr>stored = Some ?old, trace = []\<rparr>"
  let ?md = "\<lparr>issuer = ''https://as'', authorization_endpoint = ''https://as/authorize'',
              token_endpoint = ''https://as/token'', registration_endpoint = None\<rparr>"
  let ?s2 = "\<lparr>stored = Some ?old, trace = [ReadCredentials, FetchMetadata mcpServerUrl]\<rparr>"
  let ?s3 = "\<lparr>stored = Some ?c,
              trace = [ReadCredentials, FetchMetadata mcpServerUrl,
                       PostToken ''https://as/token'' (refresh_body ''old'' ''client'' None),
                       WriteCredentials ?c]\<rparr>"
  have rd: "read_error ?env (length (trace t)) = None" for t
    by (simp add: oauth_example_defs)
  have ex: "expired ?env ?old (emit ReadCredentials ?s) \<and> refreshToken ?old = Some ''old'' \<and>
            ''old'' \<noteq> []"
    by (simp add: expired_def emit_def oauth_example_defs)
  have d: "discoverMetadata ?env mcpServerUrl (emit ReadCredentials ?s) = (Inr ?md, ?s2)"
    by (simp add: oauth_defs oauth_example_defs)
  have r: "refreshAccessToken ?env (token_endpoint ?md) ''old'' (clientId ?old)
             (clientSecret ?old) ?s2 = (Inr ?c, ?s3)"
    by (simp add: oauth_defs oauth_example_defs)
  from authenticate_stored_credential [of ?s ?old ?env "''old''", OF _ rd] ex d r
  have a: "authenticate ?env ?s = (Inr ?c, ?s3) \<and>
           count_events is_refresh (snd (authenticate ?env ?s)) = 1"
    by (simp add: count_events_def)
  let ?fresh = "stored_credential (Some 5000) (Some ''old'')"
  let ?t = "\<lparr>stored = Some ?fresh, trace = []\<rparr>"
  have nex: "\<not> expired ?env ?fresh (emit ReadCredentials ?t)"
    by (simp add: expired_def emit_def oauth_example_defs)
  from authenticate_stored_credential [of ?t ?fresh ?env "''old''", OF _ rd] nex
  have b: "authenticate ?env ?t = (Inr ?fresh, \<lparr>stored = Some ?fresh, trace = [ReadCredentials]\<rparr>)"
    by (simp add: emit_def)
  let ?norefresh = "stored_credential (Some 500) None"
  let ?u = "\<lparr>stored = Some ?norefresh, trace = []\<rparr>"
  have nr: "expired ?env ?norefresh (emit ReadCredentials ?u) \<and>
            \<not> truthy_str (refreshToken ?norefresh)"
    by (simp add: expired_def emit_def truthy_str_def oauth_example_defs)
  from authenticate_stored_credential [of ?u ?norefresh ?env "''old''", OF _ rd] nr
  have c: "authenticate ?env ?u
             = performFullAuth ?env \<lparr>stored = Some ?norefresh, trace = [ReadCredentials]\<rparr>"
    by (simp add: emit_def)
  from a b c show ?thesis by blast
qed

text \<open>
  With the discovery failing no refresh request is sent although the credential is
  expired and has a refresh token; and a credential whose \<open>expiresAt\<close> is \<open>0\<close> is
  returned as it is, although the time is \<open>1000\<close>.
\<close>

theorem authenticate_counterexample:
  "expired offline_oauth (stored_credential (Some 500) (Some ''old''))
     (emit ReadCredentials
        \<lparr>stored = Some (stored_credential (Some 500) (Some ''old'')), trace = []\<rparr>) \<and>
   trace (snd (authenticate offline_oauth
                 \<lparr>stored = Some (stored_credential (Some 500) (Some ''old'')), trace = []\<rparr>))
     = [ReadCredentials, FetchMetadata mcpServerUrl, FetchMetadata mcpServerUrl] \<and>
   date_now offline_oauth 1 = 1000 \<and>
   authenticate offline_oauth
     \<lparr>stored = Some (stored_credential (Some 0) (Some ''old'')), trace = []\<rparr>
     = (Inr (stored_credential (Some 0) (Some ''old'')),
        \<lparr>stored = Some (stored_credential (Some 0) (Some ''old'')),
         trace = [ReadCredentials]\<rparr>)"
  by (simp add: oauth_defs oauth_example_defs)

end
